theory Spec2Isabelle
  imports Main
begin

section \<open>Data model\<close>

text \<open>
  JavaScript values are kept abstract (the type variable \<open>'v\<close>).  A context is a
  plain object, modelled as a finite map from property names to values; the object spread
  \<^verbatim>\<open>{...a, ...b}\<close> is \<open>a ++ b\<close>, where the properties of \<open>b\<close> win.  Objects whose
  key order is observed through \<^verbatim>\<open>Object.keys\<close> or \<^verbatim>\<open>Object.values\<close> (the state table,
  the outgoing table of a state, the registry) are association lists in that order, read
  with \<open>map_of\<close>.  A property read \<^verbatim>\<open>table[name]\<close> on such an object also finds the
  members it inherits from \<^verbatim>\<open>Object.prototype\<close> (see \<open>getProp\<close> below).  Contexts are only
  spread, which copies own properties.  Dates are natural numbers (milliseconds).  The
  version is a JavaScript number that holds an integer (see \<open>addOne\<close> below).
\<close>

type_synonym 'v Context = "string \<rightharpoonup> 'v"

text \<open>
  \<^verbatim>\<open>spec/types.ts\<close>: a transition is a bare target name or an object.  The field
  \<^verbatim>\<open>data\<close> of a transition object is \<open>static_data\<close> here.
\<close>

record 'v TransitionObj =
  target :: string
  guard :: "string option"
  action :: "string option"
  static_data :: "'v Context option"

datatype 'v Transition = TargetName string | TransitionDef "'v TransitionObj"

record 'v StateDefinition =
  on :: "(string \<times> 'v Transition) list option"
  entry :: "string option"
  exit :: "string option"

type_synonym ParseError = string

text \<open>
  A schema is used only through \<^verbatim>\<open>Schema.decodeUnknown\<close>: decoding either fails with a parse
  error or yields the decoded value.  The validator tests \<^verbatim>\<open>!spec.schema\<close>, so the field can
  be absent at run time.
\<close>

type_synonym 'v Schema = "'v Context \<Rightarrow> ParseError + 'v Context"

record 'v ActorSpec =
  spec_id :: string
  schema :: "'v Schema option"
  initial :: string
  states :: "(string \<times> 'v StateDefinition) list"
  guards :: "string \<rightharpoonup> ('v Context \<Rightarrow> bool)"
  actions :: "string \<rightharpoonup> ('v Context \<Rightarrow> 'v Context)"

text \<open>
  \<^verbatim>\<open>actor/types.ts\<close>.  Of \<^verbatim>\<open>ActorState\<close>, the fields \<^verbatim>\<open>id\<close>, \<^verbatim>\<open>actorType\<close> and \<^verbatim>\<open>context\<close> are
  \<open>actor_id\<close>, \<open>state_actorType\<close> and \<open>ctx\<close> here.
\<close>

record 'v ActorState =
  actor_id :: string
  state_actorType :: string
  state :: string
  ctx :: "'v Context"
  version :: int
  createdAt :: nat
  updatedAt :: nat

record 'v ExecuteCommand =
  actorType :: string
  actorId :: string
  event :: string
  data :: "'v Context option"
  actor :: "string option"

text \<open>The anonymous command type of \<^verbatim>\<open>executeCommand\<close>: \<^verbatim>\<open>{event: string; data?: unknown}\<close>.\<close>

record 'v Command =
  cmd_event :: string
  cmd_data :: "'v Context option"

text \<open>
  \<^verbatim>\<open>machine/types.ts\<close>; the fields \<^verbatim>\<open>from\<close>, \<^verbatim>\<open>to\<close> and \<^verbatim>\<open>event\<close> are \<open>from_state\<close>,
  \<open>to_state\<close> and \<open>result_event\<close> here.
\<close>

record 'v TransitionResult =
  from_state :: string
  to_state :: string
  result_event :: string
  oldContext :: "'v Context"
  newContext :: "'v Context"
  timestamp :: nat

text \<open>\<^verbatim>\<open>errors.ts\<close>: the tagged errors, with the fields the code fills in.\<close>

datatype ActorError =
    GuardFailedError string string
  | TransitionNotAllowedError string string "string list"
  | ValidationError string ParseError
  | StorageError string string "string option"
  | SpecError string
  | SpecNotFoundError string "string list"
  | InvalidStateError string "string list"
  | GuardNotFoundError string
  | ActionNotFoundError string

text \<open>
  The exit of an \<^verbatim>\<open>Effect\<close>: a value, a failure in the typed error channel, or a defect
  (an exception thrown inside \<^verbatim>\<open>Effect.gen\<close>, which the runtime turns into \<^verbatim>\<open>Cause.die\<close>).
  A \<^verbatim>\<open>yield* Effect.fail(e)\<close> ends the generator with \<open>Failure e\<close> whether or not it is
  preceded by \<^verbatim>\<open>return\<close>.

  \<open>OutOfModel\<close> marks the two runs that the source continues with a value the types
  of this theory do not hold: a context that is a string (the result of the inherited
  \<^verbatim>\<open>toString\<close> used as an action) and a result whose \<^verbatim>\<open>to\<close> is \<^verbatim>\<open>undefined\<close> (an inherited
  member used as a transition).  Nothing is stated about the source from such an exit.
\<close>

datatype Defect = TypeError string

datatype 'a Exit = Success 'a | Failure ActorError | Die Defect | OutOfModel string

section \<open>Property reads on plain objects\<close>

text \<open>
  The names every plain object inherits from \<^verbatim>\<open>Object.prototype\<close>.  All are functions but
  \<^verbatim>\<open>__proto__\<close>, which reads as the prototype object itself; all are truthy, none is a
  string, and none has a property \<^verbatim>\<open>on\<close>, \<^verbatim>\<open>entry\<close>, \<^verbatim>\<open>exit\<close>, \<^verbatim>\<open>target\<close>, \<^verbatim>\<open>guard\<close> or
  \<^verbatim>\<open>action\<close>.  A table is a map from its own keys; a key \<^verbatim>\<open>__proto__\<close> of a table is an own
  property (one made by a computed key or by \<^verbatim>\<open>JSON.parse\<close>), and the prototype of every
  table is \<^verbatim>\<open>Object.prototype\<close>.
\<close>

definition objectPrototypeNames :: "string list" where
  "objectPrototypeNames =
     [''constructor'', ''__defineGetter__'', ''__defineSetter__'', ''hasOwnProperty'',
      ''__lookupGetter__'', ''__lookupSetter__'', ''isPrototypeOf'',
      ''propertyIsEnumerable'', ''toString'', ''valueOf'', ''__proto__'',
      ''toLocaleString'']"

datatype 'a Prop = Own 'a | Inherited string | Absent

definition getProp :: "(string \<rightharpoonup> 'a) \<Rightarrow> string \<Rightarrow> 'a Prop" where
  "getProp table name =
     (case table name of
        Some v \<Rightarrow> Own v
      | None \<Rightarrow> if name \<in> set objectPrototypeNames then Inherited name else Absent)"

text \<open>
  An inherited member called as \<^verbatim>\<open>fn(context)\<close> in a module (strict mode, \<^verbatim>\<open>this\<close> is
  \<^verbatim>\<open>undefined\<close>), the context being an object: \<^verbatim>\<open>constructor\<close> is \<^verbatim>\<open>Object\<close> and returns its
  argument; \<^verbatim>\<open>toString\<close> returns the string \<^verbatim>\<open>[object Undefined]\<close>; the other functions
  convert \<^verbatim>\<open>this\<close> to an object and throw a \<^verbatim>\<open>TypeError\<close>; \<^verbatim>\<open>__proto__\<close> is not a function
  and the call throws a \<^verbatim>\<open>TypeError\<close>.
\<close>

datatype 'c Called = Returned 'c | ReturnedString string | Threw Defect

definition callInherited :: "string \<Rightarrow> 'c \<Rightarrow> 'c Called" where
  "callInherited name arg =
     (if name = ''constructor'' then Returned arg
      else if name = ''toString'' then ReturnedString ''[object Undefined]''
      else if name = ''__proto__'' then Threw (TypeError ''not a function'')
      else Threw (TypeError ''Cannot convert undefined or null to object''))"


section \<open>The transition executor (\<^verbatim>\<open>machine/transition.ts\<close>)\<close>

text \<open>
  The source of \<^verbatim>\<open>executeCommand\<close> is the second document of
  \<^verbatim>\<open>packages/effect-actor/src/errors.ts\<close>; the step numbers below are those of its comments.
  Names are tested for truthiness before they are looked up (\<^verbatim>\<open>if (transition.guard)\<close>,
  \<^verbatim>\<open>if (stateDef.exit)\<close>): an absent name and the empty string are both skipped.

  \<^verbatim>\<open>spec.states[name]\<close>: a declared state, or an inherited member, which is truthy and
  reads as a state with no table and no entry or exit action, or \<^verbatim>\<open>undefined\<close>.
\<close>

definition readState :: "'v ActorSpec \<Rightarrow> string \<Rightarrow> 'v StateDefinition option" where
  "readState spec name =
     (case getProp (map_of (states spec)) name of
        Own stateDef \<Rightarrow> Some stateDef
      | Inherited _ \<Rightarrow> Some \<lparr>on = None, entry = None, exit = None\<rparr>
      | Absent \<Rightarrow> None)"

text \<open>\<^verbatim>\<open>stateDef.on?.[event]\<close> and \<^verbatim>\<open>Object.keys(stateDef.on ?? {})\<close>.\<close>

definition lookupOn :: "'v StateDefinition \<Rightarrow> string \<Rightarrow> 'v Transition Prop" where
  "lookupOn stateDef ev =
     (case on stateDef of None \<Rightarrow> Absent | Some m \<Rightarrow> getProp (map_of m) ev)"

definition availableEvents :: "'v StateDefinition \<Rightarrow> string list" where
  "availableEvents stateDef = (case on stateDef of None \<Rightarrow> [] | Some m \<Rightarrow> map fst m)"

text \<open>
  \<^verbatim>\<open>!transitionDef\<close> for a declared transition: an empty target name is falsy, an
  object never is.
\<close>

definition falsyTransition :: "'v Transition \<Rightarrow> bool" where
  "falsyTransition transitionDef =
     (case transitionDef of TargetName t \<Rightarrow> t = [] | TransitionDef _ \<Rightarrow> False)"

text \<open>\<^verbatim>\<open>typeof transitionDef === "string" ? { target: transitionDef } : transitionDef\<close>\<close>

fun parseTransition :: "'v Transition \<Rightarrow> 'v TransitionObj" where
  "parseTransition (TargetName t) =
     \<lparr>target = t, guard = None, action = None, static_data = None\<rparr>"
| "parseTransition (TransitionDef d) = d"

text \<open>
  The value of the variable \<^verbatim>\<open>transition\<close> once step 2 is passed: the parsed declared
  transition, or an inherited member, which is not a string and so is taken as it is.
  Its \<^verbatim>\<open>guard\<close>, \<^verbatim>\<open>action\<close> and \<^verbatim>\<open>target\<close> are \<^verbatim>\<open>undefined\<close>; as a property key
  \<^verbatim>\<open>undefined\<close> is the name \<^verbatim>\<open>"undefined"\<close>.
\<close>

datatype 'v Selected = Declared "'v TransitionObj" | Member string

definition selectTransition :: "'v StateDefinition \<Rightarrow> string \<Rightarrow> 'v Selected option" where
  "selectTransition stateDef ev =
     (case lookupOn stateDef ev of
        Absent \<Rightarrow> None
      | Own transitionDef \<Rightarrow>
          if falsyTransition transitionDef then None
          else Some (Declared (parseTransition transitionDef))
      | Inherited name \<Rightarrow> Some (Member name))"

fun selectedGuard :: "'v Selected \<Rightarrow> string option" where
  "selectedGuard (Declared t) = guard t"
| "selectedGuard (Member name) = None"

fun selectedAction :: "'v Selected \<Rightarrow> string option" where
  "selectedAction (Declared t) = action t"
| "selectedAction (Member name) = None"

fun targetKey :: "'v Selected \<Rightarrow> string" where
  "targetKey (Declared t) = target t"
| "targetKey (Member name) = ''undefined''"

text \<open>\<^verbatim>\<open>{...currentState.context, ...command.data}\<close>; spreading \<^verbatim>\<open>undefined\<close> adds nothing.\<close>

definition mergeContext :: "'v Context \<Rightarrow> 'v Context option \<Rightarrow> 'v Context" where
  "mergeContext c d = (case d of None \<Rightarrow> c | Some d' \<Rightarrow> c ++ d')"

definition guardFailedReason :: "string \<Rightarrow> string" where
  "guardFailedReason g = ''Guard '' @ [CHR 0x22] @ g @ [CHR 0x22] @ '' evaluated to false''"

text \<open>
  Step 3: the guard block.  \<open>Success ()\<close> means the block falls through.  An inherited
  member is truthy, so it is called: an object and a non-empty string are truthy results.
\<close>

definition evaluateGuard ::
  "'v ActorSpec \<Rightarrow> string option \<Rightarrow> 'v Context \<Rightarrow> unit Exit" where
  "evaluateGuard spec g newCtx =
     (case g of
        None \<Rightarrow> Success ()
      | Some name \<Rightarrow>
          if name = [] then Success ()
          else (case getProp (guards spec) name of
                  Absent \<Rightarrow> Failure (GuardNotFoundError name)
                | Own guardFn \<Rightarrow>
                    if \<not> guardFn newCtx
                    then Failure (GuardFailedError name (guardFailedReason name))
                    else Success ()
                | Inherited member \<Rightarrow>
                    (case callInherited member newCtx of
                       Returned _ \<Rightarrow> Success ()
                     | ReturnedString s \<Rightarrow>
                         if s = []
                         then Failure (GuardFailedError name (guardFailedReason name))
                         else Success ()
                     | Threw d \<Rightarrow> Die d)))"

text \<open>
  Steps 4, 5 and 6 are the same block three times: if the name is truthy, resolve it in
  \<^verbatim>\<open>spec.actions\<close>, fail with \<^verbatim>\<open>ActionNotFoundError\<close> when it is missing, otherwise replace
  the context by the result of the call.
\<close>

definition applyAction ::
  "'v ActorSpec \<Rightarrow> string option \<Rightarrow> 'v Context \<Rightarrow> 'v Context Exit" where
  "applyAction spec a newCtx =
     (case a of
        None \<Rightarrow> Success newCtx
      | Some name \<Rightarrow>
          if name = [] then Success newCtx
          else (case getProp (actions spec) name of
                  Absent \<Rightarrow> Failure (ActionNotFoundError name)
                | Own actionFn \<Rightarrow> Success (actionFn newCtx)
                | Inherited member \<Rightarrow>
                    (case callInherited member newCtx of
                       Returned c \<Rightarrow> Success c
                     | ReturnedString s \<Rightarrow> OutOfModel ''the context is a string''
                     | Threw d \<Rightarrow> Die d)))"

definition validationReason :: string where
  "validationReason = ''Context validation failed after action execution''"

definition undefinedRead :: Defect where
  "undefinedRead = TypeError ''Cannot read properties of undefined''"

text \<open>
  \<^verbatim>\<open>executeCommand\<close>.  The extra argument is the value of \<^verbatim>\<open>new Date()\<close> at step 8.
  Reading \<^verbatim>\<open>.entry\<close> of an undefined target state, and decoding with an undefined schema,
  throw a \<^verbatim>\<open>TypeError\<close>.
\<close>

definition executeCommand ::
  "'v ActorSpec \<Rightarrow> 'v ActorState \<Rightarrow> 'v Command \<Rightarrow> nat \<Rightarrow> 'v TransitionResult Exit" where
  "executeCommand spec currentState command now =
     (case readState spec (state currentState) of
        None \<Rightarrow>
          Failure (InvalidStateError (state currentState) (map fst (states spec)))
      | Some stateDef \<Rightarrow>
          (case selectTransition stateDef (cmd_event command) of
             None \<Rightarrow>
               Failure (TransitionNotAllowedError (state currentState)
                          (cmd_event command) (availableEvents stateDef))
           | Some transition \<Rightarrow>
          (case evaluateGuard spec (selectedGuard transition)
                  (mergeContext (ctx currentState) (cmd_data command)) of
             Failure e \<Rightarrow> Failure e
           | Die d \<Rightarrow> Die d
           | OutOfModel w \<Rightarrow> OutOfModel w
           | Success _ \<Rightarrow>
          (case applyAction spec (exit stateDef)
                  (mergeContext (ctx currentState) (cmd_data command)) of
             Failure e \<Rightarrow> Failure e
           | Die d \<Rightarrow> Die d
           | OutOfModel w \<Rightarrow> OutOfModel w
           | Success afterExit \<Rightarrow>
          (case applyAction spec (selectedAction transition) afterExit of
             Failure e \<Rightarrow> Failure e
           | Die d \<Rightarrow> Die d
           | OutOfModel w \<Rightarrow> OutOfModel w
           | Success afterAction \<Rightarrow>
          (case readState spec (targetKey transition) of
             None \<Rightarrow> Die undefinedRead
           | Some newStateDef \<Rightarrow>
          (case applyAction spec (entry newStateDef) afterAction of
             Failure e \<Rightarrow> Failure e
           | Die d \<Rightarrow> Die d
           | OutOfModel w \<Rightarrow> OutOfModel w
           | Success afterEntry \<Rightarrow>
          (case schema spec of
             None \<Rightarrow> Die undefinedRead
           | Some decodeUnknown \<Rightarrow>
          (case decodeUnknown afterEntry of
             Inl e \<Rightarrow> Failure (ValidationError validationReason e)
           | Inr decoded \<Rightarrow>
               (case transition of
                  Member name \<Rightarrow> OutOfModel ''the target of the result is undefined''
                | Declared t \<Rightarrow>
                    Success \<lparr>from_state = state currentState,
                             to_state = target t,
                             result_event = cmd_event command,
                             oldContext = ctx currentState,
                             newContext = afterEntry,
                             timestamp = now\<rparr>))))))))))"


section \<open>The specification validator (\<^verbatim>\<open>spec/validator.ts\<close>)\<close>

text \<open>
  \<^verbatim>\<open>String.prototype.trim\<close> removes white space and line terminators from both ends.  Of
  these, the code units that fit a \<open>char\<close> are U+0009 to U+000D, U+0020 and U+00A0.
\<close>

definition isWhiteSpace :: "char \<Rightarrow> bool" where
  "isWhiteSpace c = (of_char c \<in> {9, 10, 11, 12, 13, 32, 160 :: nat})"

definition trim :: "string \<Rightarrow> string" where
  "trim s = rev (dropWhile isWhiteSpace (rev (dropWhile isWhiteSpace s)))"

text \<open>\<^verbatim>\<open>validateTransition\<close>\<close>

definition targetMissingReason :: "string \<Rightarrow> string" where
  "targetMissingReason t = ''Transition target '' @ [CHR 0x27] @ t @ [CHR 0x27] @
     '' does not exist in states''"

text \<open>
  A reference check as the validator writes it: a truthy name whose read from the table
  is falsy.  An inherited member is truthy, so only a name that is neither declared nor
  inherited fails.  For entry and exit actions the name is first wrapped in a
  one-element array.
\<close>

definition checkGuardRef :: "'v ActorSpec \<Rightarrow> string option \<Rightarrow> ActorError option" where
  "checkGuardRef spec g =
     (case g of
        None \<Rightarrow> None
      | Some name \<Rightarrow>
          if name \<noteq> [] \<and> getProp (guards spec) name = Absent
          then Some (GuardNotFoundError name) else None)"

definition checkActionRef :: "'v ActorSpec \<Rightarrow> string option \<Rightarrow> ActorError option" where
  "checkActionRef spec a =
     (case a of
        None \<Rightarrow> None
      | Some name \<Rightarrow>
          if name \<noteq> [] \<and> getProp (actions spec) name = Absent
          then Some (ActionNotFoundError name) else None)"

definition validateTransition :: "'v ActorSpec \<Rightarrow> 'v Transition \<Rightarrow> ActorError + unit" where
  "validateTransition spec transitionDef =
     (let transition = parseTransition transitionDef in
      if target transition \<noteq> [] \<and> readState spec (target transition) = None
      then Inl (SpecError (targetMissingReason (target transition)))
      else (case checkGuardRef spec (guard transition) of
              Some e \<Rightarrow> Inl e
            | None \<Rightarrow>
                (case checkActionRef spec (action transition) of
                   Some e \<Rightarrow> Inl e
                 | None \<Rightarrow> Inr ())))"

text \<open>The loop over \<^verbatim>\<open>Object.values(stateDef.on)\<close>: the first failure ends it.\<close>

fun validateTransitions :: "'v ActorSpec \<Rightarrow> 'v Transition list \<Rightarrow> ActorError + unit" where
  "validateTransitions spec [] = Inr ()"
| "validateTransitions spec (transitionDef # rest) =
     (case validateTransition spec transitionDef of
        Inl e \<Rightarrow> Inl e
      | Inr _ \<Rightarrow> validateTransitions spec rest)"

text \<open>\<^verbatim>\<open>validateStateDefinition\<close>\<close>

definition validateStateDefinition ::
  "'v ActorSpec \<Rightarrow> string \<Rightarrow> 'v StateDefinition \<Rightarrow> ActorError + unit" where
  "validateStateDefinition spec stateName stateDef =
     (case checkActionRef spec (entry stateDef) of
        Some e \<Rightarrow> Inl e
      | None \<Rightarrow>
          (case checkActionRef spec (exit stateDef) of
             Some e \<Rightarrow> Inl e
           | None \<Rightarrow>
               (case on stateDef of
                  None \<Rightarrow> Inr ()
                | Some m \<Rightarrow> validateTransitions spec (map snd m))))"

text \<open>The loop over \<^verbatim>\<open>stateNames\<close> in \<^verbatim>\<open>validateSpec\<close>.\<close>

fun validateStates :: "'v ActorSpec \<Rightarrow> string list \<Rightarrow> ActorError + unit" where
  "validateStates spec [] = Inr ()"
| "validateStates spec (stateName # rest) =
     (case readState spec stateName of
        None \<Rightarrow> validateStates spec rest
      | Some stateDef \<Rightarrow>
          (case validateStateDefinition spec stateName stateDef of
             Inl e \<Rightarrow> Inl e
           | Inr _ \<Rightarrow> validateStates spec rest))"

text \<open>
  The reachability scan: a queue, a set of reached states (kept as a list), and for each
  state taken from the queue the targets of its outgoing transitions that are named,
  not yet reached and declared.
\<close>

definition transitionTarget :: "'v Transition \<Rightarrow> string" where
  "transitionTarget transitionDef =
     (case transitionDef of TargetName t \<Rightarrow> t | TransitionDef d \<Rightarrow> target d)"

definition outgoingValues :: "'v ActorSpec \<Rightarrow> string \<Rightarrow> 'v Transition list" where
  "outgoingValues spec currentState =
     (case readState spec currentState of
        None \<Rightarrow> []
      | Some stateDef \<Rightarrow> (case on stateDef of None \<Rightarrow> [] | Some m \<Rightarrow> map snd m))"

definition pushTargets ::
  "string list \<Rightarrow> string list \<Rightarrow> 'v Transition list \<Rightarrow> string list" where
  "pushTargets stateNames reachableStates ts =
     filter (\<lambda>t. t \<noteq> [] \<and> t \<notin> set reachableStates \<and> t \<in> set stateNames)
            (map transitionTarget ts)"

function reachableLoop ::
  "'v ActorSpec \<Rightarrow> string list \<Rightarrow> string list \<Rightarrow> string list \<Rightarrow> string list" where
  "reachableLoop spec stateNames [] reachableStates = reachableStates"
| "reachableLoop spec stateNames (currentState # queue) reachableStates =
     (if currentState \<in> set reachableStates
      then reachableLoop spec stateNames queue reachableStates
      else reachableLoop spec stateNames
             (queue @ pushTargets stateNames (currentState # reachableStates)
                        (outgoingValues spec currentState))
             (currentState # reachableStates))"
  by pat_completeness auto
termination
proof (relation "inv_image (less_than <*lex*> less_than)
        (\<lambda>(spec, stateNames, queue, reachableStates).
           (card ((set stateNames \<union> set queue) - set reachableStates), length queue))",
       goal_cases)
  case 1
  show ?case by (intro wf_inv_image wf_lex_prod wf_less_than)
next
  case (2 spec stateNames currentState queue reachableStates)
  then have "(set stateNames \<union> set (currentState # queue)) - set reachableStates
             = (set stateNames \<union> set queue) - set reachableStates"
    by auto
  then show ?case by simp
next
  case (3 spec stateNames currentState queue reachableStates)
  let ?new = "pushTargets stateNames (currentState # reachableStates)
                (outgoingValues spec currentState)"
  let ?A = "(set stateNames \<union> set (queue @ ?new)) - set (currentState # reachableStates)"
  let ?B = "(set stateNames \<union> set (currentState # queue)) - set reachableStates"
  have "set ?new \<subseteq> set stateNames"
    by (auto simp: pushTargets_def)
  then have "?A \<subseteq> ?B - {currentState}"
    by auto
  moreover have "currentState \<in> ?B"
    using 3 by simp
  ultimately have "?A \<subset> ?B"
    by blast
  then have "card ?A < card ?B"
    by (intro psubset_card_mono) simp_all
  then show ?case by simp
qed

text \<open>
  \<^verbatim>\<open>validateSpec\<close>.  The function returns nothing on success; the value returned here is the
  list of unreachable states, which the code reports with \<^verbatim>\<open>console.warn\<close> when it is not
  empty.
\<close>

definition idMissingReason :: string where
  "idMissingReason = ''Actor spec must have a non-empty string ID''"

definition schemaMissingReason :: string where
  "schemaMissingReason = ''Actor spec must have a schema''"

definition validateSpec :: "'v ActorSpec \<Rightarrow> ActorError + string list" where
  "validateSpec spec =
     (if spec_id spec = [] \<or> trim (spec_id spec) = [] then Inl (SpecError idMissingReason)
      else if schema spec = None then Inl (SpecError schemaMissingReason)
      else
        let stateNames = map fst (states spec) in
        if initial spec \<notin> set stateNames
        then Inl (InvalidStateError (initial spec) stateNames)
        else (case validateStates spec stateNames of
                Inl e \<Rightarrow> Inl e
              | Inr _ \<Rightarrow>
                  let reachableStates = reachableLoop spec stateNames [initial spec] []
                  in Inr (filter (\<lambda>name. name \<notin> set reachableStates) stateNames)))"

section \<open>The orchestration service (\<^verbatim>\<open>actor/service.ts\<close>)\<close>

text \<open>The source of the service is \<^verbatim>\<open>unnamed/part_011\<close>.\<close>

text \<open>\<^verbatim>\<open>audit.ts\<close>\<close>

datatype AuditResult = AuditSuccess | AuditFailed

record 'v AuditEntry =
  audit_id :: string
  audit_timestamp :: nat
  audit_actorType :: string
  audit_actorId :: string
  audit_event :: string
  audit_from :: string
  audit_to :: "string option"
  audit_actor :: "string option"
  audit_data :: "'v Context option"
  audit_action :: "string option"
  audit_result :: AuditResult
  audit_error :: "string option"
  duration :: int

text \<open>
  \<^verbatim>\<open>providers/storage.ts\<close>: the two operations of the storage contract that the service
  calls when it executes or checks a command.  The backend's own state is \<open>'s\<close>; a
  failure is a \<^verbatim>\<open>StorageError\<close>.  \<^verbatim>\<open>load\<close> only reads; a \<^verbatim>\<open>save\<close> that fails is taken to
  leave the backend as it was.
\<close>

record ('s, 'v) StorageProviderApi =
  save :: "'s \<Rightarrow> string \<Rightarrow> string \<Rightarrow> 'v ActorState \<Rightarrow> 'v AuditEntry \<Rightarrow> ActorError + 's"
  load :: "'s \<Rightarrow> string \<Rightarrow> string \<Rightarrow> ActorError + 'v ActorState"

text \<open>\<^verbatim>\<open>spec/registry.ts\<close>: \<^verbatim>\<open>get\<close> on the map of registered specifications.\<close>

definition registryGet ::
  "(string \<times> 'v ActorSpec) list \<Rightarrow> string \<Rightarrow> ActorError + 'v ActorSpec" where
  "registryGet specs i =
     (case map_of specs i of
        Some spec \<Rightarrow> Inr spec
      | None \<Rightarrow> Inl (SpecNotFoundError i (map fst specs)))"

text \<open>
  What one call of \<^verbatim>\<open>execute\<close> reads from the outside world: \<^verbatim>\<open>new Date()\<close> at the start,
  \<^verbatim>\<open>new Date()\<close> inside \<^verbatim>\<open>executeCommand\<close>, \<^verbatim>\<open>crypto.randomUUID()\<close> and \<^verbatim>\<open>Date.now()\<close>.
\<close>

record Ambient =
  startTime :: nat
  commandTime :: nat
  randomUUID :: string
  dateNow :: nat

text \<open>
  Step 2 of \<^verbatim>\<open>execute\<close>: \<^verbatim>\<open>storage.load(...).pipe(Effect.orElse(() => Effect.succeed({...})))\<close>
  in \<^verbatim>\<open>ActorService\<close>, \<^verbatim>\<open>Effect.catchAll(() => Effect.succeed(initialState))\<close> in
  \<^verbatim>\<open>ActorServiceLive\<close>.  Both handlers ignore the error they receive.
\<close>

definition initialState :: "Ambient \<Rightarrow> 'v ActorSpec \<Rightarrow> 'v ExecuteCommand \<Rightarrow> 'v ActorState" where
  "initialState amb spec command =
     \<lparr>actor_id = actorId command,
      state_actorType = actorType command,
      state = initial spec,
      ctx = Map.empty,
      version = 0,
      createdAt = startTime amb,
      updatedAt = startTime amb\<rparr>"

definition loadOrInitial ::
  "Ambient \<Rightarrow> ('s, 'v) StorageProviderApi \<Rightarrow> 's \<Rightarrow> 'v ActorSpec \<Rightarrow> 'v ExecuteCommand
     \<Rightarrow> 'v ActorState" where
  "loadOrInitial amb storage st spec command =
     (case load storage st (actorType command) (actorId command) of
        Inr loaded \<Rightarrow> loaded
      | Inl _ \<Rightarrow> initialState amb spec command)"

text \<open>
  \<^verbatim>\<open>currentState.version + 1\<close> on a JavaScript number that holds an integer: exact below
  \<open>2 ^ 53\<close> in magnitude; from there on the sum is rounded to the nearest double, ties to
  the even mantissa, so between \<open>2 ^ 53\<close> and \<open>2 ^ 54\<close> it is the neighbouring multiple of 4
  and beyond \<open>2 ^ 54\<close> the number itself.  A version that is not an integer, or an integer
  that no double holds, is outside the model.
\<close>

definition addOne :: "int \<Rightarrow> int" where
  "addOne v =
     (if - (2 ^ 53) \<le> v \<and> v < 2 ^ 53 then v + 1
      else if - (2 ^ 54) \<le> v \<and> v < 2 ^ 54 then (if v mod 4 = 0 then v else v + 2)
      else v)"

text \<open>Step 4 of \<^verbatim>\<open>execute\<close>: the state and the audit entry handed to \<^verbatim>\<open>storage.save\<close>.\<close>

definition newStateOf ::
  "Ambient \<Rightarrow> 'v ActorState \<Rightarrow> 'v TransitionResult \<Rightarrow> 'v ActorState" where
  "newStateOf amb currentState result =
     \<lparr>actor_id = actor_id currentState,
      state_actorType = state_actorType currentState,
      state = to_state result,
      ctx = newContext result,
      version = addOne (version currentState),
      createdAt = createdAt currentState,
      updatedAt = startTime amb\<rparr>"

definition auditEntryOf ::
  "Ambient \<Rightarrow> 'v ExecuteCommand \<Rightarrow> 'v ActorState \<Rightarrow> 'v TransitionResult \<Rightarrow> 'v AuditEntry" where
  "auditEntryOf amb command currentState result =
     \<lparr>audit_id = randomUUID amb,
      audit_timestamp = startTime amb,
      audit_actorType = actorType command,
      audit_actorId = actorId command,
      audit_event = event command,
      audit_from = state currentState,
      audit_to = Some (to_state result),
      audit_actor = actor command,
      audit_data = data command,
      audit_action = None,
      audit_result = AuditSuccess,
      audit_error = None,
      duration = int (dateNow amb) - int (startTime amb)\<rparr>"

text \<open>
  \<^verbatim>\<open>execute\<close>, the same in \<^verbatim>\<open>ActorService\<close> and in \<^verbatim>\<open>ActorServiceLive\<close> (which adds
  logging).  The result is the exit of the effect and the backend's state afterwards.
  For an \<open>OutOfModel\<close> run of the executor the backend's state is not modelled; the
  second component is then the state before the call, and nothing is stated about it.
\<close>

definition execute ::
  "Ambient \<Rightarrow> (string \<times> 'v ActorSpec) list \<Rightarrow> ('s, 'v) StorageProviderApi \<Rightarrow> 's
     \<Rightarrow> 'v ExecuteCommand \<Rightarrow> 'v TransitionResult Exit \<times> 's" where
  "execute amb specs storage st command =
     (case registryGet specs (actorType command) of
        Inl e \<Rightarrow> (Failure e, st)
      | Inr spec \<Rightarrow>
          let currentState = loadOrInitial amb storage st spec command in
          (case executeCommand spec currentState
                  \<lparr>cmd_event = event command, cmd_data = data command\<rparr> (commandTime amb) of
             Failure e \<Rightarrow> (Failure e, st)
           | Die d \<Rightarrow> (Die d, st)
           | OutOfModel w \<Rightarrow> (OutOfModel w, st)
           | Success result \<Rightarrow>
               (case save storage st (actorType command) (actorId command)
                       (newStateOf amb currentState result)
                       (auditEntryOf amb command currentState result) of
                  Inl e \<Rightarrow> (Failure e, st)
                | Inr st' \<Rightarrow> (Success result, st'))))"

text \<open>\<^verbatim>\<open>TransitionCheck\<close> and \<^verbatim>\<open>canTransition\<close>.\<close>

record TransitionCheck =
  allowed :: bool
  reason :: "string option"
  check_target :: "string option"

definition eventNotAllowedReason :: "string \<Rightarrow> string \<Rightarrow> string" where
  "eventNotAllowedReason ev s = ''Event '' @ [CHR 0x22] @ ev @ [CHR 0x22] @
     '' not allowed from state '' @ [CHR 0x22] @ s @ [CHR 0x22]"

definition guardFailsReason :: "string \<Rightarrow> string" where
  "guardFailsReason g = ''Guard '' @ [CHR 0x22] @ g @ [CHR 0x22] @ '' fails''"

text \<open>
  The body of \<^verbatim>\<open>canTransition\<close> after the specification and the state are loaded.  An
  inherited member used as a transition is truthy and has no guard and no target.  A
  guard that reads as falsy is skipped (\<^verbatim>\<open>guardFn && !guardFn(state.context)\<close>); an
  inherited member is truthy and is called, which can throw.
\<close>

definition checkTransition ::
  "'v ActorSpec \<Rightarrow> 'v ActorState \<Rightarrow> string \<Rightarrow> TransitionCheck Exit" where
  "checkTransition spec s ev =
     (let notAllowed = \<lparr>allowed = False,
                         reason = Some (eventNotAllowedReason ev (state s)),
                         check_target = None\<rparr>
      in (case readState spec (state s) of
            None \<Rightarrow> Success notAllowed
          | Some stateDef \<Rightarrow>
              (case selectTransition stateDef ev of
                 None \<Rightarrow> Success notAllowed
               | Some (Member name) \<Rightarrow>
                   Success \<lparr>allowed = True, reason = None, check_target = None\<rparr>
               | Some (Declared transitionDef) \<Rightarrow>
                   let pass = \<lparr>allowed = True, reason = None,
                               check_target = Some (target transitionDef)\<rparr>;
                       fails = (\<lambda>g. \<lparr>allowed = False, reason = Some (guardFailsReason g),
                                      check_target = None\<rparr>)
                   in (case guard transitionDef of
                         None \<Rightarrow> Success pass
                       | Some g \<Rightarrow>
                           if g = [] then Success pass
                           else (case getProp (guards spec) g of
                                   Absent \<Rightarrow> Success pass
                                 | Own guardFn \<Rightarrow>
                                     if \<not> guardFn (ctx s) then Success (fails g)
                                     else Success pass
                                 | Inherited member \<Rightarrow>
                                     (case callInherited member (ctx s) of
                                        Returned _ \<Rightarrow> Success pass
                                      | ReturnedString str \<Rightarrow>
                                          if str = [] then Success (fails g)
                                          else Success pass
                                      | Threw d \<Rightarrow> Die d))))))"

definition canTransition ::
  "(string \<times> 'v ActorSpec) list \<Rightarrow> ('s, 'v) StorageProviderApi \<Rightarrow> 's
     \<Rightarrow> string \<Rightarrow> string \<Rightarrow> string \<Rightarrow> TransitionCheck Exit \<times> 's" where
  "canTransition specs storage st aType aId ev =
     (case registryGet specs aType of
        Inl e \<Rightarrow> (Failure e, st)
      | Inr spec \<Rightarrow>
          (case load storage st aType aId of
             Inl e \<Rightarrow> (Failure e, st)
           | Inr s \<Rightarrow> (checkTransition spec s ev, st)))"

text \<open>
  Whether \<^verbatim>\<open>executeCommand\<close> on a state and a command gets past steps 1 to 5 of the
  executor as the specification numbers them: the state is found, a transition is
  selected, and the guard block falls through.  This predicate follows the wording of
  the specification of \<^verbatim>\<open>canTransition\<close>; it is not a function of the source.
\<close>

definition passesGuardSteps :: "'v ActorSpec \<Rightarrow> 'v ActorState \<Rightarrow> 'v Command \<Rightarrow> bool" where
  "passesGuardSteps spec s command =
     (case readState spec (state s) of
        None \<Rightarrow> False
      | Some stateDef \<Rightarrow>
          (case selectTransition stateDef (cmd_event command) of
             None \<Rightarrow> False
           | Some transition \<Rightarrow>
               evaluateGuard spec (selectedGuard transition)
                 (mergeContext (ctx s) (cmd_data command)) = Success ()))"


section \<open>Test fixtures\<close>

text \<open>
  \<^verbatim>\<open>test-utils/mock-providers.ts\<close>: the in-memory storage, two maps keyed by
  \<^verbatim>\<open>`${actorType}:${actorId}`\<close>.  Its \<^verbatim>\<open>load\<close> fails only when the key is absent.
\<close>

record 'v MockStore =
  actors :: "string \<rightharpoonup> 'v ActorState"
  audits :: "string \<rightharpoonup> 'v AuditEntry list"

definition getKey :: "string \<Rightarrow> string \<Rightarrow> string" where
  "getKey aType aId = aType @ '':'' @ aId"

definition mockSave ::
  "'v MockStore \<Rightarrow> string \<Rightarrow> string \<Rightarrow> 'v ActorState \<Rightarrow> 'v AuditEntry
     \<Rightarrow> ActorError + 'v MockStore" where
  "mockSave st aType aId s audit =
     (let key = getKey aType aId;
          existing = (case audits st key of None \<Rightarrow> [] | Some es \<Rightarrow> es)
      in Inr \<lparr>actors = (actors st)(key \<mapsto> s),
              audits = (audits st)(key \<mapsto> audit # existing)\<rparr>)"

definition mockLoad :: "'v MockStore \<Rightarrow> string \<Rightarrow> string \<Rightarrow> ActorError + 'v ActorState" where
  "mockLoad st aType aId =
     (case actors st (getKey aType aId) of
        None \<Rightarrow> Inl (StorageError ''mock'' ''load''
                       (Some (''Actor not found: '' @ getKey aType aId)))
      | Some s \<Rightarrow> Inr s)"

definition createMockStorage :: "('v MockStore, 'v) StorageProviderApi" where
  "createMockStorage = \<lparr>save = mockSave, load = mockLoad\<rparr>"

definition emptyStore :: "'v MockStore" where
  "emptyStore = \<lparr>actors = Map.empty, audits = Map.empty\<rparr>"

text \<open>
  A backend whose stored file exists but cannot be parsed, as \<^verbatim>\<open>loadFile\<close> of
  \<^verbatim>\<open>providers/backends/fs-json.ts\<close> reports it: \<^verbatim>\<open>load\<close> fails with a storage error that is
  not a not-found report; \<^verbatim>\<open>save\<close> writes as the in-memory storage does.
\<close>

definition unreadableStorage :: "('v MockStore, 'v) StorageProviderApi" where
  "unreadableStorage =
     \<lparr>save = mockSave,
      load = (\<lambda>st aType aId.
                Inl (StorageError ''fs-json'' ''load'' (Some ''Failed to parse JSON'')))\<rparr>"

text \<open>
  The values of the test contexts, and the specification of
  \<^verbatim>\<open>machine/transition.test.ts\<close>: a number \<^verbatim>\<open>count\<close>, an optional string \<^verbatim>\<open>message\<close>.
  \<open>NaN\<close> is the number that \<^verbatim>\<open>undefined + 1\<close> gives.  The decoder accepts a context whose
  \<^verbatim>\<open>count\<close> is a number and whose \<^verbatim>\<open>message\<close>, if present, is a string, and yields these two
  properties only.
\<close>

datatype Value = Num int | Str string | NaN

definition TestSchema :: "Value Schema" where
  "TestSchema c =
     (case c ''count'' of
        None \<Rightarrow> Inl ''count: is missing''
      | Some (Str _) \<Rightarrow> Inl ''count: expected number''
      | Some n \<Rightarrow>
          (case c ''message'' of
             None \<Rightarrow> Inr [''count'' \<mapsto> n]
           | Some (Str m) \<Rightarrow> Inr [''count'' \<mapsto> n, ''message'' \<mapsto> Str m]
           | Some _ \<Rightarrow> Inl ''message: expected string''))"

text \<open>
  \<^verbatim>\<open>ctx.count > 0\<close>: false for a missing count and for \<open>NaN\<close>.  A string is compared after
  conversion to a number; the test contexts hold no string that reads as a number.
\<close>

definition canStart :: "Value Context \<Rightarrow> bool" where
  "canStart c = (case c ''count'' of Some (Num n) \<Rightarrow> n > 0 | _ \<Rightarrow> False)"

text \<open>
  \<^verbatim>\<open>{...ctx, count: ctx.count + 1}\<close>: a number is incremented, a string gets \<^verbatim>\<open>1\<close>
  appended, a missing count and \<open>NaN\<close> give \<open>NaN\<close>.
\<close>

definition increment :: "Value Context \<Rightarrow> Value Context" where
  "increment c =
     c(''count'' \<mapsto>
         (case c ''count'' of
            Some (Num n) \<Rightarrow> Num (n + 1)
          | Some (Str s) \<Rightarrow> Str (s @ ''1'')
          | Some NaN \<Rightarrow> NaN
          | None \<Rightarrow> NaN))"

definition onExit :: "Value Context \<Rightarrow> Value Context" where
  "onExit c = c(''message'' \<mapsto> Str ''exited'')"

definition onEntry :: "Value Context \<Rightarrow> Value Context" where
  "onEntry c = c(''message'' \<mapsto> Str ''entered'')"

definition idle :: "Value StateDefinition" where
  "idle = \<lparr>on = Some
       [(''START'', TargetName ''active''),
        (''START_WITH_GUARD'', TransitionDef
           \<lparr>target = ''active'', guard = Some ''canStart'', action = None,
            static_data = None\<rparr>),
        (''START_WITH_ACTION'', TransitionDef
           \<lparr>target = ''active'', guard = None, action = Some ''increment'',
            static_data = None\<rparr>)],
     entry = None, exit = None\<rparr>"

definition active :: "Value StateDefinition" where
  "active = \<lparr>on = Some
       [(''COMPLETE'', TransitionDef
           \<lparr>target = ''done'', guard = None, action = Some ''increment'',
            static_data = None\<rparr>)],
     entry = None, exit = Some ''onExit''\<rparr>"

definition done_state :: "Value StateDefinition" where
  "done_state = \<lparr>on = None, entry = Some ''onEntry'', exit = None\<rparr>"

definition createTestSpec :: "Value ActorSpec" where
  "createTestSpec =
     \<lparr>spec_id = ''test-spec'',
      schema = Some TestSchema,
      initial = ''idle'',
      states = [(''idle'', idle), (''active'', active), (''done'', done_state)],
      guards = [''canStart'' \<mapsto> canStart],
      actions = [''increment'' \<mapsto> increment, ''onExit'' \<mapsto> onExit,
                 ''onEntry'' \<mapsto> onEntry]\<rparr>"

definition testState :: "string \<Rightarrow> Value Context \<Rightarrow> Value ActorState" where
  "testState s c =
     \<lparr>actor_id = ''test-1'', state_actorType = ''test'', state = s, ctx = c,
      version = 0, createdAt = 0, updatedAt = 0\<rparr>"

definition testAmbient :: Ambient where
  "testAmbient = \<lparr>startTime = 1000, commandTime = 1001,
                   randomUUID = ''00000000-0000-4000-8000-000000000000'',
                   dateNow = 1002\<rparr>"

definition testCommand :: "string \<Rightarrow> Value Context option \<Rightarrow> Value ExecuteCommand" where
  "testCommand ev d =
     \<lparr>actorType = ''test-spec'', actorId = ''test-1'', event = ev, data = d,
      actor = None\<rparr>"

text \<open>
  The test specification with one more transition from \<^verbatim>\<open>idle\<close>, which carries both the
  guard and the action of the test specification.
\<close>

definition checkedSpec :: "Value ActorSpec" where
  "checkedSpec = createTestSpec
     \<lparr>states :=
        [(''idle'', \<lparr>on = Some [(''START_CHECKED'', TransitionDef
                         \<lparr>target = ''active'', guard = Some ''canStart'',
                          action = Some ''increment'', static_data = None\<rparr>)],
                    entry = None, exit = None\<rparr>),
         (''active'', active), (''done'', done_state)]\<rparr>"

text \<open>
  The test specification with a single state whose only transition names a state that is
  not declared.
\<close>

definition danglingSpec :: "Value ActorSpec" where
  "danglingSpec = createTestSpec
     \<lparr>states := [(''idle'', \<lparr>on = Some [(''GO'', TargetName ''missing'')],
                           entry = None, exit = None\<rparr>)]\<rparr>"

text \<open>
  The specification of the test ``should fail when guard not found'': the only
  transition names a guard that is not in the guard table.
\<close>

definition missingGuardSpec :: "Value ActorSpec" where
  "missingGuardSpec = createTestSpec
     \<lparr>states :=
        [(''idle'', \<lparr>on = Some [(''START'', TransitionDef
                         \<lparr>target = ''active'', guard = Some ''nonExistentGuard'',
                          action = None, static_data = None\<rparr>)],
                    entry = None, exit = None\<rparr>),
         (''active'', \<lparr>on = None, entry = None, exit = None\<rparr>)]\<rparr>"

text \<open>A store that holds the test entity at version 5.\<close>

definition version5Store :: "Value MockStore" where
  "version5Store =
     \<lparr>actors = [''test-spec:test-1'' \<mapsto>
                  (testState ''active'' [''count'' \<mapsto> Num 3])\<lparr>version := 5\<rparr>],
      audits = Map.empty\<rparr>"

text \<open>A store that holds the test entity at version \<open>2 ^ 53\<close>.\<close>

definition largeVersionStore :: "Value MockStore" where
  "largeVersionStore =
     \<lparr>actors = [''test-spec:test-1'' \<mapsto>
                  (testState ''idle'' [''count'' \<mapsto> Num 0])\<lparr>version := 2 ^ 53\<rparr>],
      audits = Map.empty\<rparr>"


section \<open>Properties\<close>

lemma getProp_own: "table name = Some v \<Longrightarrow> getProp table name = Own v"
  by (simp add: getProp_def)

lemma readState_own:
  "map_of (states spec) name = Some stateDef \<Longrightarrow> readState spec name = Some stateDef"
  by (simp add: readState_def getProp_def)

lemma executeCommand_steps:
  assumes "readState spec (state currentState) = Some stateDef"
    and "selectTransition stateDef (cmd_event command) = Some (Declared t)"
    and "evaluateGuard spec (guard t)
           (mergeContext (ctx currentState) (cmd_data command)) = Success ()"
    and "applyAction spec (exit stateDef)
           (mergeContext (ctx currentState) (cmd_data command)) = Success afterExit"
    and "applyAction spec (action t) afterExit = Success afterAction"
    and "readState spec (target t) = Some newStateDef"
    and "applyAction spec (entry newStateDef) afterAction = Success afterEntry"
    and "schema spec = Some decodeUnknown"
  shows "executeCommand spec currentState command now =
           (case decodeUnknown afterEntry of
              Inl e \<Rightarrow> Failure (ValidationError validationReason e)
            | Inr decoded \<Rightarrow>
                Success \<lparr>from_state = state currentState,
                         to_state = target t,
                         result_event = cmd_event command,
                         oldContext = ctx currentState,
                         newContext = afterEntry,
                         timestamp = now\<rparr>)"
  using assms by (simp add: executeCommand_def split: sum.splits)

lemma applyAction_resolved:
  "a \<noteq> [] \<Longrightarrow> actions spec a = Some f \<Longrightarrow> applyAction spec (Some a) c = Success (f c)"
  by (simp add: applyAction_def getProp_def)

text \<open>
  C1 (action ordering).  State A is the current state, with exit action \<open>exitFn\<close>; the
  event selects a transition with action \<open>actionFn\<close> to state B, which has entry action
  \<open>entryFn\<close>; the guard block falls through.  Then every result that \<^verbatim>\<open>executeCommand\<close>
  returns has \<open>newContext = entryFn (actionFn (exitFn merged))\<close>, where \<open>merged\<close> is the
  context overridden by the command data, and it returns that result whenever this
  context passes the schema check, which is the last gate.
\<close>

theorem action_ordering:
  assumes "map_of (states spec) (state currentState) = Some stateA"
    and "exit stateA = Some ex" and "ex \<noteq> []" and "actions spec ex = Some exitFn"
    and "lookupOn stateA (cmd_event command) = Own transitionDef"
    and "action (parseTransition transitionDef) = Some tx" and "tx \<noteq> []"
    and "actions spec tx = Some actionFn"
    and "map_of (states spec) (target (parseTransition transitionDef)) = Some stateB"
    and "entry stateB = Some en" and "en \<noteq> []" and "actions spec en = Some entryFn"
    and "evaluateGuard spec (guard (parseTransition transitionDef))
           (mergeContext (ctx currentState) (cmd_data command)) = Success ()"
    and "schema spec = Some decodeUnknown"
  shows "(\<forall>decoded.
            decodeUnknown (entryFn (actionFn (exitFn (mergeContext (ctx currentState) (cmd_data command)))))
              = Inr decoded \<longrightarrow>
            executeCommand spec currentState command now =
              Success \<lparr>from_state = state currentState,
                       to_state = target (parseTransition transitionDef),
                       result_event = cmd_event command,
                       oldContext = ctx currentState,
                       newContext =
                         entryFn (actionFn (exitFn (mergeContext (ctx currentState) (cmd_data command)))),
                       timestamp = now\<rparr>)
       \<and> (\<forall>r. executeCommand spec currentState command now = Success r \<longrightarrow>
              newContext r = entryFn (actionFn (exitFn (mergeContext (ctx currentState) (cmd_data command)))))
       \<and> (\<forall>d k. cmd_data command = Some d \<longrightarrow>
              mergeContext (ctx currentState) (cmd_data command) k =
                (case d k of Some v \<Rightarrow> Some v | None \<Rightarrow> ctx currentState k))
       \<and> (cmd_data command = None \<longrightarrow>
              mergeContext (ctx currentState) (cmd_data command) = ctx currentState)"
proof -
  let ?m = "mergeContext (ctx currentState) (cmd_data command)"
  let ?t = "parseTransition transitionDef"
  have obj: "\<not> falsyTransition transitionDef"
    using assms(6) by (cases transitionDef) (auto simp: falsyTransition_def)
  have sel: "selectTransition stateA (cmd_event command) = Some (Declared ?t)"
    using assms(5) obj by (simp add: selectTransition_def)
  have e1: "applyAction spec (exit stateA) ?m = Success (exitFn ?m)"
    using assms(2-4) by (simp add: applyAction_resolved)
  have e2: "applyAction spec (action ?t) (exitFn ?m) = Success (actionFn (exitFn ?m))"
    using assms(6-8) by (simp add: applyAction_resolved)
  have e3: "applyAction spec (entry stateB) (actionFn (exitFn ?m)) =
              Success (entryFn (actionFn (exitFn ?m)))"
    using assms(10-12) by (simp add: applyAction_resolved)
  have run: "executeCommand spec currentState command now =
           (case decodeUnknown (entryFn (actionFn (exitFn ?m))) of
              Inl e \<Rightarrow> Failure (ValidationError validationReason e)
            | Inr decoded \<Rightarrow>
                Success \<lparr>from_state = state currentState,
                         to_state = target (parseTransition transitionDef),
                         result_event = cmd_event command,
                         oldContext = ctx currentState,
                         newContext = entryFn (actionFn (exitFn ?m)),
                         timestamp = now\<rparr>)"
    by (rule executeCommand_steps [OF readState_own [OF assms(1)] sel assms(13) e1 e2
          readState_own [OF assms(9)] e3 assms(14)])
  have a: "\<forall>decoded. decodeUnknown (entryFn (actionFn (exitFn ?m))) = Inr decoded \<longrightarrow>
            executeCommand spec currentState command now =
              Success \<lparr>from_state = state currentState,
                       to_state = target (parseTransition transitionDef),
                       result_event = cmd_event command,
                       oldContext = ctx currentState,
                       newContext = entryFn (actionFn (exitFn ?m)),
                       timestamp = now\<rparr>"
    using run by simp
  have b: "\<forall>r. executeCommand spec currentState command now = Success r \<longrightarrow>
              newContext r = entryFn (actionFn (exitFn ?m))"
    using run by (auto split: sum.splits)
  have c: "\<forall>d k. cmd_data command = Some d \<longrightarrow>
              ?m k = (case d k of Some v \<Rightarrow> Some v | None \<Rightarrow> ctx currentState k)"
    by (auto simp: mergeContext_def map_add_def split: option.splits)
  have d: "cmd_data command = None \<longrightarrow> ?m = ctx currentState"
    by (simp add: mergeContext_def)
  from a b c d show ?thesis by blast
qed


theorem action_ordering_witness:
  "executeCommand createTestSpec (testState ''active'' [''count'' \<mapsto> Num 0])
     \<lparr>cmd_event = ''COMPLETE'', cmd_data = None\<rparr> 7 =
   Success \<lparr>from_state = ''active'', to_state = ''done'', result_event = ''COMPLETE'',
            oldContext = [''count'' \<mapsto> Num 0],
            newContext = onEntry (increment (onExit [''count'' \<mapsto> Num 0])),
            timestamp = 7\<rparr>
   \<and> onEntry (increment (onExit [''count'' \<mapsto> Num 0])) =
       [''count'' \<mapsto> Num 1, ''message'' \<mapsto> Str ''entered'']"
proof -
  let ?s = "testState ''active'' [''count'' \<mapsto> Num 0]"
  let ?c = "\<lparr>cmd_event = ''COMPLETE'', cmd_data = None :: Value Context option\<rparr>"
  let ?t = "TransitionDef \<lparr>target = ''done'', guard = None, action = Some ''increment'',
                            static_data = None :: Value Context option\<rparr>"
  have h1: "map_of (states createTestSpec) (state ?s) = Some active"
    by (simp add: createTestSpec_def testState_def)
  have h2: "exit active = Some ''onExit''" and h3: "''onExit'' \<noteq> []"
    by (simp_all add: active_def)
  have h4: "actions createTestSpec ''onExit'' = Some onExit"
    by (simp add: createTestSpec_def)
  have h5: "lookupOn active (cmd_event ?c) = Own ?t"
    by (simp add: lookupOn_def getProp_def active_def)
  have h6: "action (parseTransition ?t) = Some ''increment''" and h7: "''increment'' \<noteq> []"
    by simp_all
  have h8: "actions createTestSpec ''increment'' = Some increment"
    by (simp add: createTestSpec_def)
  have h9: "map_of (states createTestSpec) (target (parseTransition ?t)) = Some done_state"
    by (simp add: createTestSpec_def)
  have h10: "entry done_state = Some ''onEntry''" and h11: "''onEntry'' \<noteq> []"
    by (simp_all add: done_state_def)
  have h12: "actions createTestSpec ''onEntry'' = Some onEntry"
    by (simp add: createTestSpec_def)
  have h13: "evaluateGuard createTestSpec (guard (parseTransition ?t))
               (mergeContext (ctx ?s) (cmd_data ?c)) = Success ()"
    by (simp add: evaluateGuard_def)
  have h14: "schema createTestSpec = Some TestSchema"
    by (simp add: createTestSpec_def)
  have final: "onEntry (increment (onExit [''count'' \<mapsto> Num 0])) =
                 [''count'' \<mapsto> Num 1, ''message'' \<mapsto> Str ''entered'']"
    by (simp add: onEntry_def increment_def onExit_def)
  show ?thesis
    using action_ordering [OF h1 h2 h3 h4 h5 h6 h7 h8 h9 h10 h11 h12 h13 h14, of 7] final
    by (simp add: testState_def mergeContext_def TestSchema_def)
qed


text \<open>
  C5 (validation is the last gate).  When every step up to the entry action goes through
  and the decoder rejects the context these steps produce, \<^verbatim>\<open>executeCommand\<close> fails with
  \<^verbatim>\<open>ValidationError\<close> carrying the parse error, and returns no result.
\<close>

theorem validation_last_gate:
  assumes "map_of (states spec) (state currentState) = Some stateDef"
    and "lookupOn stateDef (cmd_event command) = Own transitionDef"
    and "\<not> falsyTransition transitionDef"
    and "evaluateGuard spec (guard (parseTransition transitionDef))
           (mergeContext (ctx currentState) (cmd_data command)) = Success ()"
    and "applyAction spec (exit stateDef)
           (mergeContext (ctx currentState) (cmd_data command)) = Success afterExit"
    and "applyAction spec (action (parseTransition transitionDef)) afterExit
           = Success afterAction"
    and "map_of (states spec) (target (parseTransition transitionDef)) = Some newStateDef"
    and "applyAction spec (entry newStateDef) afterAction = Success afterEntry"
    and "schema spec = Some decodeUnknown"
    and "decodeUnknown afterEntry = Inl parseError"
  shows "executeCommand spec currentState command now =
           Failure (ValidationError validationReason parseError)
       \<and> (\<forall>r. executeCommand spec currentState command now \<noteq> Success r)"
proof -
  have sel: "selectTransition stateDef (cmd_event command) =
               Some (Declared (parseTransition transitionDef))"
    using assms(2,3) by (simp add: selectTransition_def)
  have g: "evaluateGuard spec (guard (parseTransition transitionDef))
             (mergeContext (ctx currentState) (cmd_data command)) = Success ()"
    by (rule assms(4))
  show ?thesis
    using executeCommand_steps [OF readState_own [OF assms(1)] sel g assms(5) assms(6)
        readState_own [OF assms(7)] assms(8) assms(9), of now] assms(10)
    by simp
qed

theorem validation_last_gate_witness:
  "executeCommand
     (createTestSpec\<lparr>actions := (actions createTestSpec)
        (''increment'' \<mapsto> (\<lambda>c. [''count'' \<mapsto> Str ''invalid'']))\<rparr>)
     (testState ''idle'' [''count'' \<mapsto> Num 0])
     \<lparr>cmd_event = ''START_WITH_ACTION'', cmd_data = None\<rparr> 7 =
   Failure (ValidationError validationReason ''count: expected number'')"
proof -
  let ?spec = "createTestSpec\<lparr>actions := (actions createTestSpec)
        (''increment'' \<mapsto> (\<lambda>c. [''count'' \<mapsto> Str ''invalid'']))\<rparr>"
  let ?s = "testState ''idle'' [''count'' \<mapsto> Num 0]"
  let ?c = "\<lparr>cmd_event = ''START_WITH_ACTION'', cmd_data = None :: Value Context option\<rparr>"
  let ?t = "TransitionDef \<lparr>target = ''active'', guard = None, action = Some ''increment'',
                            static_data = None :: Value Context option\<rparr>"
  have h1: "map_of (states ?spec) (state ?s) = Some idle"
    by (simp add: createTestSpec_def testState_def)
  have h2: "lookupOn idle (cmd_event ?c) = Own ?t"
    by (simp add: lookupOn_def getProp_def idle_def)
  have h3: "\<not> falsyTransition ?t"
    by (simp add: falsyTransition_def)
  have h4: "evaluateGuard ?spec (guard (parseTransition ?t))
              (mergeContext (ctx ?s) (cmd_data ?c)) = Success ()"
    by (simp add: evaluateGuard_def)
  have h5: "applyAction ?spec (exit idle) (mergeContext (ctx ?s) (cmd_data ?c)) =
              Success [''count'' \<mapsto> Num 0]"
    by (simp add: applyAction_def idle_def mergeContext_def testState_def)
  have h6: "applyAction ?spec (action (parseTransition ?t)) [''count'' \<mapsto> Num 0] =
              Success [''count'' \<mapsto> Str ''invalid'']"
    by (simp add: applyAction_def getProp_def)
  have h7: "map_of (states ?spec) (target (parseTransition ?t)) = Some active"
    by (simp add: createTestSpec_def)
  have h8: "applyAction ?spec (entry active) [''count'' \<mapsto> Str ''invalid''] =
              Success [''count'' \<mapsto> Str ''invalid'']"
    by (simp add: applyAction_def active_def)
  have h9: "schema ?spec = Some TestSchema"
    by (simp add: createTestSpec_def)
  have h10: "TestSchema [''count'' \<mapsto> Str ''invalid''] = Inl ''count: expected number''"
    by (simp add: TestSchema_def)
  show ?thesis
    using validation_last_gate [OF h1 h2 h3 h4 h5 h6 h7 h8 h9 h10, of 7] by blast
qed

text \<open>
  C4 (guard short-circuit).  The selected transition declares a guard and an action, the
  guard resolves and is false on the merged context.  Then \<^verbatim>\<open>executeCommand\<close> fails with
  \<^verbatim>\<open>GuardFailedError\<close> naming the guard; the failure is the same whatever the action
  table and the schema are, so no action and no validation takes part in it; and the
  service, given this failure, returns it and leaves the storage as it was.  The
  executor builds the merged context as a new object and returns no context with the
  failure, so the context of the input state is the one it was.
\<close>

theorem guard_short_circuit:
  fixes spec :: "'v ActorSpec"
  assumes "map_of (states spec) (state currentState) = Some stateDef"
    and "lookupOn stateDef (cmd_event command) = Own (TransitionDef d)"
    and "guard d = Some g" and "g \<noteq> []" and "action d = Some a"
    and "guards spec g = Some guardFn"
    and "\<not> guardFn (mergeContext (ctx currentState) (cmd_data command))"
  shows "executeCommand spec currentState command now =
           Failure (GuardFailedError g (guardFailedReason g))
       \<and> (\<forall>acts sch.
             executeCommand (spec\<lparr>actions := acts, schema := sch\<rparr>) currentState command now =
               Failure (GuardFailedError g (guardFailedReason g)))
       \<and> (\<forall>amb specs (storage :: ('s, 'v) StorageProviderApi) st c.
             registryGet specs (actorType c) = Inr spec \<and>
             loadOrInitial amb storage st spec c = currentState \<and>
             event c = cmd_event command \<and> data c = cmd_data command \<longrightarrow>
             execute amb specs storage st c =
               (Failure (GuardFailedError g (guardFailedReason g)), st))"
proof -
  have sel: "selectTransition stateDef (cmd_event command) = Some (Declared d)"
    using assms(2) by (simp add: selectTransition_def falsyTransition_def)
  have blocked: "evaluateGuard spec' (guard d)
                   (mergeContext (ctx currentState) (cmd_data command)) =
                 Failure (GuardFailedError g (guardFailedReason g))"
    if "guards spec' = guards spec" for spec' :: "'v ActorSpec"
    using assms(3,4,6,7) that by (simp add: evaluateGuard_def getProp_def)
  have run: "executeCommand spec' currentState command t =
               Failure (GuardFailedError g (guardFailedReason g))"
    if "guards spec' = guards spec" and "states spec' = states spec"
    for spec' :: "'v ActorSpec" and t
  proof -
    have "readState spec' (state currentState) = Some stateDef"
      using assms(1) that(2) by (simp add: readState_def getProp_def)
    then show ?thesis
      using sel blocked [OF that(1)] by (simp add: executeCommand_def)
  qed
  have a: "executeCommand spec currentState command now =
             Failure (GuardFailedError g (guardFailedReason g))"
    by (rule run) simp_all
  have b: "\<forall>acts sch.
             executeCommand (spec\<lparr>actions := acts, schema := sch\<rparr>) currentState command now =
               Failure (GuardFailedError g (guardFailedReason g))"
    by (intro allI run) simp_all
  have c: "execute amb specs storage st c =
             (Failure (GuardFailedError g (guardFailedReason g)), st)"
    if "registryGet specs (actorType c) = Inr spec"
      and "loadOrInitial amb storage st spec c = currentState"
      and "event c = cmd_event command" and "data c = cmd_data command"
    for amb specs and storage :: "('s, 'v) StorageProviderApi" and st c
  proof -
    have "\<lparr>cmd_event = event c, cmd_data = data c\<rparr> = command"
      using that(3,4) by simp
    then show ?thesis
      using that(1,2) run [of spec "commandTime amb"]
      by (simp add: execute_def Let_def)
  qed
  from a b c show ?thesis by blast
qed


theorem guard_short_circuit_witness:
  "executeCommand checkedSpec (testState ''idle'' [''count'' \<mapsto> Num 0])
     \<lparr>cmd_event = ''START_CHECKED'', cmd_data = Some [''message'' \<mapsto> Str ''hello'']\<rparr> 7 =
   Failure (GuardFailedError ''canStart'' (guardFailedReason ''canStart''))
   \<and> executeCommand (checkedSpec\<lparr>actions := Map.empty, schema := None\<rparr>)
       (testState ''idle'' [''count'' \<mapsto> Num 0])
       \<lparr>cmd_event = ''START_CHECKED'', cmd_data = Some [''message'' \<mapsto> Str ''hello'']\<rparr> 7 =
     Failure (GuardFailedError ''canStart'' (guardFailedReason ''canStart''))
   \<and> execute testAmbient [(''test-spec'', checkedSpec)] createMockStorage
       \<lparr>actors = [''test-spec:test-1'' \<mapsto> testState ''idle'' [''count'' \<mapsto> Num 0]],
        audits = Map.empty\<rparr>
       (testCommand ''START_CHECKED'' (Some [''message'' \<mapsto> Str ''hello''])) =
     (Failure (GuardFailedError ''canStart'' (guardFailedReason ''canStart'')),
      \<lparr>actors = [''test-spec:test-1'' \<mapsto> testState ''idle'' [''count'' \<mapsto> Num 0]],
       audits = Map.empty\<rparr>)"
proof -
  let ?s = "testState ''idle'' [''count'' \<mapsto> Num 0]"
  let ?c = "\<lparr>cmd_event = ''START_CHECKED'',
             cmd_data = Some [''message'' \<mapsto> Str ''hello'']\<rparr>"
  let ?d = "\<lparr>target = ''active'', guard = Some ''canStart'', action = Some ''increment'',
             static_data = None :: Value Context option\<rparr>"
  let ?sd = "\<lparr>on = Some [(''START_CHECKED'', TransitionDef ?d)],
              entry = None, exit = None\<rparr>"
  let ?st = "\<lparr>actors = [''test-spec:test-1'' \<mapsto> ?s],
              audits = Map.empty :: string \<rightharpoonup> Value AuditEntry list\<rparr>"
  let ?x = "testCommand ''START_CHECKED'' (Some [''message'' \<mapsto> Str ''hello''])"
  have h1: "map_of (states checkedSpec) (state ?s) = Some ?sd"
    by (simp add: checkedSpec_def testState_def)
  have h2: "lookupOn ?sd (cmd_event ?c) = Own (TransitionDef ?d)"
    by (simp add: lookupOn_def getProp_def)
  have h3: "guard ?d = Some ''canStart''" and h4: "''canStart'' \<noteq> []"
    and h5: "action ?d = Some ''increment''"
    by simp_all
  have h6: "guards checkedSpec ''canStart'' = Some canStart"
    by (simp add: checkedSpec_def createTestSpec_def)
  have h7: "\<not> canStart (mergeContext (ctx ?s) (cmd_data ?c))"
    by (simp add: canStart_def mergeContext_def testState_def)
  have s1: "registryGet [(''test-spec'', checkedSpec)] (actorType ?x) = Inr checkedSpec"
    by (simp add: registryGet_def testCommand_def)
  have s2: "loadOrInitial testAmbient createMockStorage ?st checkedSpec ?x = ?s"
    by (simp add: loadOrInitial_def createMockStorage_def mockLoad_def getKey_def
        testCommand_def)
  have s3: "event ?x = cmd_event ?c" and s4: "data ?x = cmd_data ?c"
    by (simp_all add: testCommand_def)
  note g = guard_short_circuit [where 's = "Value MockStore", OF h1 h2 h3 h4 h5 h6 h7, of 7]
  from g have a: "executeCommand checkedSpec ?s ?c 7 =
      Failure (GuardFailedError ''canStart'' (guardFailedReason ''canStart''))"
    by (rule conjunct1)
  from g have b: "executeCommand (checkedSpec\<lparr>actions := Map.empty, schema := None\<rparr>) ?s ?c 7 =
      Failure (GuardFailedError ''canStart'' (guardFailedReason ''canStart''))"
    by blast
  from g s1 s2 s3 s4 have c: "execute testAmbient [(''test-spec'', checkedSpec)]
      createMockStorage ?st ?x =
      (Failure (GuardFailedError ''canStart'' (guardFailedReason ''canStart'')), ?st)"
    by blast
  from a b c show ?thesis by simp
qed

lemma readState_table:
  assumes "readState spec name = Some stateDef" and "on stateDef = Some m"
  shows "map_of (states spec) name = Some stateDef"
  using assms by (auto simp: readState_def getProp_def split: option.splits if_splits)

lemma selectTransition_Declared:
  "selectTransition stateDef ev = Some (Declared t) \<longleftrightarrow>
     (\<exists>transitionDef. lookupOn stateDef ev = Own transitionDef \<and>
        \<not> falsyTransition transitionDef \<and> t = parseTransition transitionDef)"
  by (auto simp: selectTransition_def split: Prop.splits)

lemma selectTransition_table:
  "selectTransition stateDef ev = Some x \<Longrightarrow> \<exists>m. on stateDef = Some m"
  by (auto simp: selectTransition_def lookupOn_def split: option.splits)

lemma executeCommand_Success_steps:
  assumes "executeCommand spec currentState command now = Success r"
  shows "\<exists>stateDef transitionDef afterExit afterAction newStateDef decodeUnknown decoded.
           map_of (states spec) (state currentState) = Some stateDef \<and>
           lookupOn stateDef (cmd_event command) = Own transitionDef \<and>
           \<not> falsyTransition transitionDef \<and>
           evaluateGuard spec (guard (parseTransition transitionDef))
             (mergeContext (ctx currentState) (cmd_data command)) = Success () \<and>
           applyAction spec (exit stateDef)
             (mergeContext (ctx currentState) (cmd_data command)) = Success afterExit \<and>
           applyAction spec (action (parseTransition transitionDef)) afterExit
             = Success afterAction \<and>
           readState spec (target (parseTransition transitionDef)) = Some newStateDef \<and>
           applyAction spec (entry newStateDef) afterAction = Success (newContext r) \<and>
           schema spec = Some decodeUnknown \<and>
           decodeUnknown (newContext r) = Inr decoded \<and>
           r = \<lparr>from_state = state currentState,
                to_state = target (parseTransition transitionDef),
                result_event = cmd_event command,
                oldContext = ctx currentState,
                newContext = newContext r,
                timestamp = now\<rparr>"
proof -
  let ?m = "mergeContext (ctx currentState) (cmd_data command)"
  from assms obtain stateDef where st: "readState spec (state currentState) = Some stateDef"
    by (auto simp: executeCommand_def split: option.splits)
  from assms st obtain sel where sl: "selectTransition stateDef (cmd_event command) = Some sel"
    by (auto simp: executeCommand_def split: option.splits)
  from assms st sl have gd: "evaluateGuard spec (selectedGuard sel) ?m = Success ()"
    by (auto simp: executeCommand_def split: Exit.splits)
  from assms st sl gd obtain afterExit
    where ex: "applyAction spec (exit stateDef) ?m = Success afterExit"
    by (auto simp: executeCommand_def split: Exit.splits)
  from assms st sl gd ex obtain afterAction
    where ac: "applyAction spec (selectedAction sel) afterExit = Success afterAction"
    by (auto simp: executeCommand_def split: Exit.splits)
  from assms st sl gd ex ac obtain newStateDef
    where tg: "readState spec (targetKey sel) = Some newStateDef"
    by (auto simp: executeCommand_def split: option.splits)
  from assms st sl gd ex ac tg obtain afterEntry
    where en: "applyAction spec (entry newStateDef) afterAction = Success afterEntry"
    by (auto simp: executeCommand_def split: Exit.splits)
  from assms st sl gd ex ac tg en obtain decodeUnknown
    where sc: "schema spec = Some decodeUnknown"
    by (auto simp: executeCommand_def split: option.splits)
  from assms st sl gd ex ac tg en sc obtain decoded
    where dc: "decodeUnknown afterEntry = Inr decoded"
    by (auto simp: executeCommand_def split: sum.splits)
  from assms st sl gd ex ac tg en sc dc obtain t
    where dt: "sel = Declared t"
      and r: "r = \<lparr>from_state = state currentState, to_state = target t,
                result_event = cmd_event command, oldContext = ctx currentState,
                newContext = afterEntry, timestamp = now\<rparr>"
    by (auto simp: executeCommand_def split: Selected.splits)
  from sl dt obtain transitionDef
    where lk: "lookupOn stateDef (cmd_event command) = Own transitionDef"
      and nf: "\<not> falsyTransition transitionDef"
      and pt: "t = parseTransition transitionDef"
    by (auto simp: selectTransition_Declared)
  from selectTransition_table [OF sl] obtain m where "on stateDef = Some m"
    by blast
  with st have own: "map_of (states spec) (state currentState) = Some stateDef"
    by (rule readState_table)
  have nc: "newContext r = afterEntry"
    using r by simp
  from own lk nf gd ex ac tg en sc dc r show ?thesis
    unfolding dt pt nc by (intro exI [of _ stateDef] exI [of _ transitionDef]
        exI [of _ afterExit] exI [of _ afterAction] exI [of _ newStateDef]
        exI [of _ decodeUnknown] exI [of _ decoded]) simp
qed

lemma readState_cong:
  "states spec' = states spec \<Longrightarrow> readState spec' name = readState spec name"
  by (simp add: readState_def)

lemma evaluateGuard_cong:
  "guards spec' = guards spec \<Longrightarrow> evaluateGuard spec' g c = evaluateGuard spec g c"
  by (simp add: evaluateGuard_def split: option.splits)

lemma applyAction_cong:
  "actions spec' = actions spec \<Longrightarrow> applyAction spec' a c = applyAction spec a c"
  by (simp add: applyAction_def split: option.splits)

text \<open>
  C10 (the schema is a gate only).  In a successful run the returned \<open>newContext\<close> is the
  value the entry step produced, the decoder accepted exactly this value, and what the
  decoder returned is not used: any decoder that accepts this value gives the same
  result.  The state the service saves carries the same context.
\<close>

theorem schema_is_gate_only:
  fixes spec :: "'v ActorSpec"
  assumes "executeCommand spec currentState command now = Success r"
  shows "(\<exists>stateDef transitionDef afterExit afterAction newStateDef decodeUnknown decoded.
           map_of (states spec) (state currentState) = Some stateDef \<and>
           lookupOn stateDef (cmd_event command) = Own transitionDef \<and>
           applyAction spec (exit stateDef)
             (mergeContext (ctx currentState) (cmd_data command)) = Success afterExit \<and>
           applyAction spec (action (parseTransition transitionDef)) afterExit
             = Success afterAction \<and>
           readState spec (target (parseTransition transitionDef)) = Some newStateDef \<and>
           applyAction spec (entry newStateDef) afterAction = Success (newContext r) \<and>
           schema spec = Some decodeUnknown \<and>
           decodeUnknown (newContext r) = Inr decoded)
       \<and> (\<forall>decodeUnknown' decoded'.
             decodeUnknown' (newContext r) = Inr decoded' \<longrightarrow>
             executeCommand (spec\<lparr>schema := Some decodeUnknown'\<rparr>) currentState command now
               = Success r)
       \<and> (\<forall>amb specs (storage :: ('s, 'v) StorageProviderApi) st c.
             registryGet specs (actorType c) = Inr spec \<and>
             loadOrInitial amb storage st spec c = currentState \<and>
             \<lparr>cmd_event = event c, cmd_data = data c\<rparr> = command \<and>
             commandTime amb = now \<longrightarrow>
             ctx (newStateOf amb currentState r) = newContext r \<and>
             execute amb specs storage st c =
               (case save storage st (actorType c) (actorId c)
                       (newStateOf amb currentState r)
                       (auditEntryOf amb c currentState r) of
                  Inl e \<Rightarrow> (Failure e, st)
                | Inr st' \<Rightarrow> (Success r, st')))"
proof -
  from executeCommand_Success_steps [OF assms]
  obtain stateDef transitionDef afterExit afterAction newStateDef decodeUnknown decoded
    where st: "map_of (states spec) (state currentState) = Some stateDef"
      and tr: "lookupOn stateDef (cmd_event command) = Own transitionDef"
      and nf: "\<not> falsyTransition transitionDef"
      and gd: "evaluateGuard spec (guard (parseTransition transitionDef))
                 (mergeContext (ctx currentState) (cmd_data command)) = Success ()"
      and ex: "applyAction spec (exit stateDef)
                 (mergeContext (ctx currentState) (cmd_data command)) = Success afterExit"
      and ac: "applyAction spec (action (parseTransition transitionDef)) afterExit
                 = Success afterAction"
      and tg: "readState spec (target (parseTransition transitionDef)) = Some newStateDef"
      and en: "applyAction spec (entry newStateDef) afterAction = Success (newContext r)"
      and sc: "schema spec = Some decodeUnknown"
      and dc: "decodeUnknown (newContext r) = Inr decoded"
      and r: "r = \<lparr>from_state = state currentState,
                to_state = target (parseTransition transitionDef),
                result_event = cmd_event command,
                oldContext = ctx currentState,
                newContext = newContext r,
                timestamp = now\<rparr>"
    by blast
  have a: "\<exists>stateDef transitionDef afterExit afterAction newStateDef decodeUnknown decoded.
           map_of (states spec) (state currentState) = Some stateDef \<and>
           lookupOn stateDef (cmd_event command) = Own transitionDef \<and>
           applyAction spec (exit stateDef)
             (mergeContext (ctx currentState) (cmd_data command)) = Success afterExit \<and>
           applyAction spec (action (parseTransition transitionDef)) afterExit
             = Success afterAction \<and>
           readState spec (target (parseTransition transitionDef)) = Some newStateDef \<and>
           applyAction spec (entry newStateDef) afterAction = Success (newContext r) \<and>
           schema spec = Some decodeUnknown \<and>
           decodeUnknown (newContext r) = Inr decoded"
    using st tr ex ac tg en sc dc by blast
  have b: "executeCommand (spec\<lparr>schema := Some decodeUnknown'\<rparr>) currentState command now
             = Success r"
    if "decodeUnknown' (newContext r) = Inr decoded'" for decodeUnknown' decoded'
  proof -
    let ?spec = "spec\<lparr>schema := Some decodeUnknown'\<rparr>"
    have "executeCommand ?spec currentState command now =
           (case decodeUnknown' (newContext r) of
              Inl e \<Rightarrow> Failure (ValidationError validationReason e)
            | Inr decoded \<Rightarrow>
                Success \<lparr>from_state = state currentState,
                         to_state = target (parseTransition transitionDef),
                         result_event = cmd_event command,
                         oldContext = ctx currentState,
                         newContext = newContext r,
                         timestamp = now\<rparr>)"
      by (rule executeCommand_steps [where stateDef = stateDef and afterExit = afterExit
            and afterAction = afterAction and newStateDef = newStateDef])
         (simp_all add: readState_own [OF st] tr nf gd ex ac tg en evaluateGuard_cong
            applyAction_cong readState_cong selectTransition_def)
    then show ?thesis
      using that r by simp
  qed
  have c: "ctx (newStateOf amb currentState r) = newContext r \<and>
           execute amb specs storage st c =
               (case save storage st (actorType c) (actorId c)
                       (newStateOf amb currentState r)
                       (auditEntryOf amb c currentState r) of
                  Inl e \<Rightarrow> (Failure e, st)
                | Inr st' \<Rightarrow> (Success r, st'))"
    if "registryGet specs (actorType c) = Inr spec"
      and "loadOrInitial amb storage st spec c = currentState"
      and "\<lparr>cmd_event = event c, cmd_data = data c\<rparr> = command"
      and "commandTime amb = now"
    for amb specs and storage :: "('s, 'v) StorageProviderApi" and st c
    using that assms by (simp add: execute_def newStateOf_def Let_def)
  from a b c show ?thesis by blast
qed

theorem schema_is_gate_only_witness:
  "executeCommand createTestSpec (testState ''idle'' [''count'' \<mapsto> Num 0])
     \<lparr>cmd_event = ''START'', cmd_data = Some [''note'' \<mapsto> Str ''x'']\<rparr> 1001 =
   Success \<lparr>from_state = ''idle'', to_state = ''active'', result_event = ''START'',
            oldContext = [''count'' \<mapsto> Num 0],
            newContext = [''count'' \<mapsto> Num 0, ''note'' \<mapsto> Str ''x''],
            timestamp = 1001\<rparr>
   \<and> TestSchema [''count'' \<mapsto> Num 0, ''note'' \<mapsto> Str ''x''] = Inr [''count'' \<mapsto> Num 0]
   \<and> [''count'' \<mapsto> Num 0, ''note'' \<mapsto> Str ''x''] \<noteq> [''count'' \<mapsto> Num 0]
   \<and> executeCommand (createTestSpec\<lparr>schema := Some (\<lambda>c. Inr Map.empty)\<rparr>)
       (testState ''idle'' [''count'' \<mapsto> Num 0])
       \<lparr>cmd_event = ''START'', cmd_data = Some [''note'' \<mapsto> Str ''x'']\<rparr> 1001 =
     Success \<lparr>from_state = ''idle'', to_state = ''active'', result_event = ''START'',
              oldContext = [''count'' \<mapsto> Num 0],
              newContext = [''count'' \<mapsto> Num 0, ''note'' \<mapsto> Str ''x''],
              timestamp = 1001\<rparr>
   \<and> map_option ctx
         (actors (snd (execute testAmbient [(''test-spec'', createTestSpec)] createMockStorage
            \<lparr>actors = [''test-spec:test-1'' \<mapsto> testState ''idle'' [''count'' \<mapsto> Num 0]],
             audits = Map.empty\<rparr>
            (testCommand ''START'' (Some [''note'' \<mapsto> Str ''x'']))))
          ''test-spec:test-1'') =
       Some [''count'' \<mapsto> Num 0, ''note'' \<mapsto> Str ''x'']"
proof -
  let ?s = "testState ''idle'' [''count'' \<mapsto> Num 0]"
  let ?c = "\<lparr>cmd_event = ''START'', cmd_data = Some [''note'' \<mapsto> Str ''x'']\<rparr>"
  let ?n = "[''count'' \<mapsto> Num 0, ''note'' \<mapsto> Str ''x'']"
  let ?r = "\<lparr>from_state = ''idle'', to_state = ''active'', result_event = ''START'',
            oldContext = [''count'' \<mapsto> Num 0], newContext = ?n, timestamp = 1001\<rparr>"
  let ?specs = "[(''test-spec'', createTestSpec)]"
  let ?st = "\<lparr>actors = [''test-spec:test-1'' \<mapsto> ?s],
              audits = Map.empty :: string \<rightharpoonup> Value AuditEntry list\<rparr>"
  let ?x = "testCommand ''START'' (Some [''note'' \<mapsto> Str ''x''])"
  have run: "executeCommand createTestSpec ?s ?c 1001 = Success ?r"
    by (simp add: executeCommand_def createTestSpec_def testState_def lookupOn_def idle_def
        active_def falsyTransition_def evaluateGuard_def applyAction_def mergeContext_def
        TestSchema_def readState_def selectTransition_def getProp_def)
  have dec: "TestSchema ?n = Inr [''count'' \<mapsto> Num 0]"
    by (simp add: TestSchema_def)
  have neq: "?n \<noteq> [''count'' \<mapsto> Num 0]"
  proof
    assume "?n = [''count'' \<mapsto> Num 0]"
    then have "?n ''note'' = [''count'' \<mapsto> Num 0] ''note''"
      by (rule arg_cong)
    then show False by simp
  qed
  note gate = schema_is_gate_only [where 's = "Value MockStore", OF run]
  have other: "executeCommand (createTestSpec\<lparr>schema := Some (\<lambda>c. Inr Map.empty)\<rparr>) ?s ?c 1001
          = Success ?r"
    by (rule gate [THEN conjunct2, THEN conjunct1, rule_format,
          of "\<lambda>c. Inr Map.empty" Map.empty])
       simp
  have called:
    "registryGet ?specs (actorType ?x) = Inr createTestSpec \<and>
     loadOrInitial testAmbient createMockStorage ?st createTestSpec ?x = ?s \<and>
     \<lparr>cmd_event = event ?x, cmd_data = data ?x\<rparr> = ?c \<and>
     commandTime testAmbient = 1001"
    by (simp add: registryGet_def testCommand_def loadOrInitial_def createMockStorage_def
        mockLoad_def getKey_def testAmbient_def)
  note served = gate [THEN conjunct2, THEN conjunct2, rule_format, OF called]
  have saved: "map_option ctx
         (actors (snd (execute testAmbient ?specs createMockStorage ?st ?x))
          ''test-spec:test-1'') = Some ?n"
  proof -
    have "save createMockStorage ?st (actorType ?x) (actorId ?x)
            (newStateOf testAmbient ?s ?r) (auditEntryOf testAmbient ?x ?s ?r) =
          mockSave ?st ''test-spec'' ''test-1''
            (newStateOf testAmbient ?s ?r) (auditEntryOf testAmbient ?x ?s ?r)"
      by (simp add: createMockStorage_def testCommand_def)
    then have "snd (execute testAmbient ?specs createMockStorage ?st ?x) =
            \<lparr>actors = (actors ?st)(''test-spec:test-1'' \<mapsto> newStateOf testAmbient ?s ?r),
             audits = (audits ?st)(''test-spec:test-1'' \<mapsto>
                        [auditEntryOf testAmbient ?x ?s ?r])\<rparr>"
      by (simp add: served [THEN conjunct2] mockSave_def getKey_def Let_def)
    then show ?thesis
      by (simp add: served [THEN conjunct1])
  qed
  from run dec neq other saved show ?thesis
    by (intro conjI)
qed

text \<open>
  C8 (initial state check), as amended.  For a specification whose id still has a
  character after trimming white space, whose schema is present and whose initial state
  is not a key of the state table, \<^verbatim>\<open>validateSpec\<close> fails with \<^verbatim>\<open>InvalidStateError\<close>
  carrying the initial state and the declared state names.  The check comes before every
  reference check: the failure is the same whatever the guard and action tables are.
\<close>

theorem validate_initial_state:
  assumes "trim (spec_id spec) \<noteq> []" and "schema spec = Some decodeUnknown"
    and "initial spec \<notin> fst ` set (states spec)"
  shows "validateSpec spec = Inl (InvalidStateError (initial spec) (map fst (states spec)))
       \<and> (\<forall>gs as.
             validateSpec (spec\<lparr>guards := gs, actions := as\<rparr>) =
               Inl (InvalidStateError (initial spec) (map fst (states spec))))"
proof -
  have "spec_id spec \<noteq> []"
    using assms(1) by (auto simp: trim_def)
  then show ?thesis
    using assms by (simp add: validateSpec_def Let_def)
qed

theorem validate_initial_state_witness:
  "validateSpec (createTestSpec\<lparr>initial := ''nowhere''\<rparr>) =
     Inl (InvalidStateError ''nowhere'' [''idle'', ''active'', ''done''])
   \<and> validateSpec (createTestSpec\<lparr>initial := ''nowhere'', guards := Map.empty,
                                   actions := Map.empty\<rparr>) =
     Inl (InvalidStateError ''nowhere'' [''idle'', ''active'', ''done''])"
proof -
  let ?spec = "createTestSpec\<lparr>initial := ''nowhere''\<rparr>"
  have h1: "trim (spec_id ?spec) \<noteq> []"
    by (simp add: createTestSpec_def trim_def isWhiteSpace_def)
  have h2: "schema ?spec = Some TestSchema"
    by (simp add: createTestSpec_def)
  have h3: "initial ?spec \<notin> fst ` set (states ?spec)"
    by (simp add: createTestSpec_def)
  note v = validate_initial_state [OF h1 h2 h3]
  from v have a: "validateSpec ?spec =
      Inl (InvalidStateError (initial ?spec) (map fst (states ?spec)))"
    by (rule conjunct1)
  have b: "validateSpec (?spec\<lparr>guards := Map.empty, actions := Map.empty\<rparr>) =
      Inl (InvalidStateError (initial ?spec) (map fst (states ?spec)))"
    by (rule v [THEN conjunct2, rule_format])
  from a b show ?thesis
    by (simp add: createTestSpec_def)
qed

text \<open>
  The claim as stated asks only for a non-empty id.  An id made of one space is not
  empty, and validation stops at the id check.
\<close>

theorem validate_blank_id_counterexample:
  "spec_id (createTestSpec\<lparr>spec_id := '' '', initial := ''nowhere''\<rparr>) \<noteq> []
   \<and> schema (createTestSpec\<lparr>spec_id := '' '', initial := ''nowhere''\<rparr>) = Some TestSchema
   \<and> initial (createTestSpec\<lparr>spec_id := '' '', initial := ''nowhere''\<rparr>)
        \<notin> fst ` set (states (createTestSpec\<lparr>spec_id := '' '', initial := ''nowhere''\<rparr>))
   \<and> validateSpec (createTestSpec\<lparr>spec_id := '' '', initial := ''nowhere''\<rparr>)
        = Inl (SpecError idMissingReason)"
  by (simp add: validateSpec_def createTestSpec_def trim_def isWhiteSpace_def)


text \<open>
  C2 (load failure), as amended.  Whatever error \<^verbatim>\<open>storage.load\<close> fails with, \<^verbatim>\<open>execute\<close>
  goes on with the synthesized state: the initial state of the specification, an empty
  context, version 0, both dates the start time.  The load error is dropped; what
  \<^verbatim>\<open>execute\<close> returns is decided by the executor on that state and by \<^verbatim>\<open>storage.save\<close>.
\<close>

theorem load_failure_synthesizes_state:
  fixes storage :: "('s, 'v) StorageProviderApi"
  assumes "registryGet specs (actorType command) = Inr spec"
    and "load storage st (actorType command) (actorId command) = Inl e"
  shows "loadOrInitial amb storage st spec command =
           \<lparr>actor_id = actorId command, state_actorType = actorType command,
            state = initial spec, ctx = Map.empty, version = 0,
            createdAt = startTime amb, updatedAt = startTime amb\<rparr>
       \<and> (\<forall>e'. executeCommand spec (initialState amb spec command)
                   \<lparr>cmd_event = event command, cmd_data = data command\<rparr> (commandTime amb)
                 = Failure e' \<longrightarrow>
               execute amb specs storage st command = (Failure e', st))
       \<and> (\<forall>d. executeCommand spec (initialState amb spec command)
                   \<lparr>cmd_event = event command, cmd_data = data command\<rparr> (commandTime amb)
                 = Die d \<longrightarrow>
               execute amb specs storage st command = (Die d, st))
       \<and> (\<forall>result. executeCommand spec (initialState amb spec command)
                   \<lparr>cmd_event = event command, cmd_data = data command\<rparr> (commandTime amb)
                 = Success result \<longrightarrow>
               execute amb specs storage st command =
                 (case save storage st (actorType command) (actorId command)
                         (newStateOf amb (initialState amb spec command) result)
                         (auditEntryOf amb command (initialState amb spec command) result) of
                    Inl e' \<Rightarrow> (Failure e', st)
                  | Inr st' \<Rightarrow> (Success result, st')))"
proof -
  have fresh: "loadOrInitial amb storage st spec command = initialState amb spec command"
    using assms(2) by (simp add: loadOrInitial_def)
  have a: "loadOrInitial amb storage st spec command =
           \<lparr>actor_id = actorId command, state_actorType = actorType command,
            state = initial spec, ctx = Map.empty, version = 0,
            createdAt = startTime amb, updatedAt = startTime amb\<rparr>"
    by (simp add: fresh initialState_def)
  have b: "execute amb specs storage st command =
             (case executeCommand spec (initialState amb spec command)
                     \<lparr>cmd_event = event command, cmd_data = data command\<rparr> (commandTime amb) of
                Failure e' \<Rightarrow> (Failure e', st)
              | Die d \<Rightarrow> (Die d, st)
              | OutOfModel w \<Rightarrow> (OutOfModel w, st)
              | Success result \<Rightarrow>
                  (case save storage st (actorType command) (actorId command)
                          (newStateOf amb (initialState amb spec command) result)
                          (auditEntryOf amb command (initialState amb spec command) result) of
                     Inl e' \<Rightarrow> (Failure e', st)
                   | Inr st' \<Rightarrow> (Success result, st')))"
    using assms(1) by (simp add: execute_def fresh Let_def)
  from a show ?thesis
    by (intro conjI allI impI) (simp_all add: b)
qed

theorem load_failure_synthesizes_state_witness:
  "loadOrInitial testAmbient unreadableStorage version5Store createTestSpec
     (testCommand ''START'' (Some [''count'' \<mapsto> Num 0])) =
   \<lparr>actor_id = ''test-1'', state_actorType = ''test-spec'', state = ''idle'',
    ctx = Map.empty, version = 0, createdAt = 1000, updatedAt = 1000\<rparr>
   \<and> loadOrInitial testAmbient createMockStorage emptyStore createTestSpec
     (testCommand ''START'' (Some [''count'' \<mapsto> Num 0])) =
   \<lparr>actor_id = ''test-1'', state_actorType = ''test-spec'', state = ''idle'',
    ctx = Map.empty, version = 0, createdAt = 1000, updatedAt = 1000\<rparr>
   \<and> fst (execute testAmbient [(''test-spec'', createTestSpec)] unreadableStorage
            version5Store (testCommand ''START'' (Some [''count'' \<mapsto> Num 0]))) =
     Success \<lparr>from_state = ''idle'', to_state = ''active'', result_event = ''START'',
              oldContext = Map.empty, newContext = [''count'' \<mapsto> Num 0],
              timestamp = 1001\<rparr>"
proof -
  let ?x = "testCommand ''START'' (Some [''count'' \<mapsto> Num 0])"
  let ?specs = "[(''test-spec'', createTestSpec)]"
  have r: "registryGet ?specs (actorType ?x) = Inr createTestSpec"
    by (simp add: registryGet_def testCommand_def)
  have l1: "load unreadableStorage version5Store (actorType ?x) (actorId ?x) =
              Inl (StorageError ''fs-json'' ''load'' (Some ''Failed to parse JSON''))"
    by (simp add: unreadableStorage_def)
  have l2: "load createMockStorage (emptyStore :: Value MockStore) (actorType ?x) (actorId ?x) =
              Inl (StorageError ''mock'' ''load'' (Some ''Actor not found: test-spec:test-1''))"
    by (simp add: createMockStorage_def mockLoad_def emptyStore_def getKey_def testCommand_def)
  note u = load_failure_synthesizes_state [OF r l1, of testAmbient]
  have a: "loadOrInitial testAmbient unreadableStorage version5Store createTestSpec ?x =
       \<lparr>actor_id = actorId ?x, state_actorType = actorType ?x,
        state = initial createTestSpec, ctx = Map.empty, version = 0,
        createdAt = startTime testAmbient, updatedAt = startTime testAmbient\<rparr>"
    by (rule u [THEN conjunct1])
  have b: "loadOrInitial testAmbient createMockStorage emptyStore createTestSpec ?x =
       \<lparr>actor_id = actorId ?x, state_actorType = actorType ?x,
        state = initial createTestSpec, ctx = Map.empty, version = 0,
        createdAt = startTime testAmbient, updatedAt = startTime testAmbient\<rparr>"
    by (rule load_failure_synthesizes_state [OF r l2, THEN conjunct1])
  have onFresh: "executeCommand createTestSpec (initialState testAmbient createTestSpec ?x)
                   \<lparr>cmd_event = event ?x, cmd_data = data ?x\<rparr> (commandTime testAmbient) =
      Success \<lparr>from_state = ''idle'', to_state = ''active'', result_event = ''START'',
              oldContext = Map.empty, newContext = [''count'' \<mapsto> Num 0],
              timestamp = 1001\<rparr>"
    by (simp add: testCommand_def initialState_def testAmbient_def
        executeCommand_def createTestSpec_def lookupOn_def idle_def active_def
        falsyTransition_def evaluateGuard_def applyAction_def mergeContext_def TestSchema_def
        readState_def selectTransition_def getProp_def Let_def)
  have c: "fst (execute testAmbient ?specs unreadableStorage version5Store ?x) =
     Success \<lparr>from_state = ''idle'', to_state = ''active'', result_event = ''START'',
              oldContext = Map.empty, newContext = [''count'' \<mapsto> Num 0],
              timestamp = 1001\<rparr>"
    by (subst u [THEN conjunct2, THEN conjunct2, THEN conjunct2, rule_format, OF onFresh])
       (simp add: unreadableStorage_def mockSave_def Let_def)
  from a b c show ?thesis
    by (simp add: testCommand_def createTestSpec_def testAmbient_def)
qed

text \<open>
  The claim as stated has every load failure other than not-found reach the caller.
  Here the stored file cannot be parsed: \<^verbatim>\<open>execute\<close> succeeds on a synthesized state and
  the entity, stored at version 5, is saved at version 1.
\<close>

theorem load_error_swallowed_counterexample:
  "load unreadableStorage version5Store ''test-spec'' ''test-1'' =
     Inl (StorageError ''fs-json'' ''load'' (Some ''Failed to parse JSON''))
   \<and> fst (execute testAmbient [(''test-spec'', createTestSpec)] unreadableStorage
            version5Store (testCommand ''START'' (Some [''count'' \<mapsto> Num 0]))) =
       Success \<lparr>from_state = ''idle'', to_state = ''active'', result_event = ''START'',
                oldContext = Map.empty, newContext = [''count'' \<mapsto> Num 0],
                timestamp = 1001\<rparr>
   \<and> map_option version
         (actors (snd (execute testAmbient [(''test-spec'', createTestSpec)] unreadableStorage
            version5Store (testCommand ''START'' (Some [''count'' \<mapsto> Num 0]))))
            ''test-spec:test-1'') = Some 1"
  by (simp add: unreadableStorage_def execute_def registryGet_def testCommand_def
      loadOrInitial_def initialState_def testAmbient_def executeCommand_def createTestSpec_def
      lookupOn_def idle_def active_def falsyTransition_def evaluateGuard_def applyAction_def
      mergeContext_def TestSchema_def newStateOf_def auditEntryOf_def mockSave_def getKey_def
      version5Store_def readState_def selectTransition_def getProp_def addOne_def Let_def)

lemma lookupOn_undeclared:
  assumes "\<forall>m. on stateDef = Some m \<longrightarrow> ev \<notin> fst ` set m"
    and "ev \<notin> set objectPrototypeNames"
  shows "lookupOn stateDef ev = Absent"
proof (cases "on stateDef")
  case None
  then show ?thesis by (simp add: lookupOn_def)
next
  case (Some m)
  with assms(1) have "ev \<notin> fst ` set m" by blast
  then have "map_of m ev = None"
    by (simp add: map_of_eq_None_iff)
  with Some assms(2) show ?thesis
    by (simp add: lookupOn_def getProp_def)
qed

lemma transition_not_allowed_undeclared:
  assumes "readState spec (state currentState) = Some stateDef"
    and "\<forall>m. on stateDef = Some m \<longrightarrow> cmd_event command \<notin> fst ` set m"
    and "cmd_event command \<notin> set objectPrototypeNames"
  shows "executeCommand spec currentState command now =
           Failure (TransitionNotAllowedError (state currentState) (cmd_event command)
                      (case on stateDef of None \<Rightarrow> [] | Some m \<Rightarrow> map fst m))"
  using assms(1) lookupOn_undeclared [OF assms(2,3)]
  by (simp add: executeCommand_def selectTransition_def availableEvents_def)

text \<open>
  C7 (transition not allowed).  The claim is about every event that is not a key of the
  outgoing table of the current state.  \<^verbatim>\<open>stateDef.on?.[command.event]\<close> reads the table
  through its prototype chain: the event \<^verbatim>\<open>constructor\<close> is not a key of the table of
  \<^verbatim>\<open>idle\<close>, the read finds the member inherited from \<^verbatim>\<open>Object.prototype\<close>, the
  not-allowed branch is skipped, and the run ends in a \<^verbatim>\<open>TypeError\<close> at the entry step
  instead of the \<^verbatim>\<open>TransitionNotAllowedError\<close> of the claim.  An event that the table
  neither holds nor inherits, \<^verbatim>\<open>INVALID_EVENT\<close> here, gets that error with the keys of the
  table.
\<close>

theorem inherited_event_defect:
  "map_of (states createTestSpec) (state (testState ''idle'' [''count'' \<mapsto> Num 0]))
     = Some idle
   \<and> availableEvents idle = [''START'', ''START_WITH_GUARD'', ''START_WITH_ACTION'']
   \<and> ''constructor'' \<notin> set (availableEvents idle)
   \<and> executeCommand createTestSpec (testState ''idle'' [''count'' \<mapsto> Num 0])
       \<lparr>cmd_event = ''constructor'', cmd_data = None\<rparr> 7 =
     Die (TypeError ''Cannot read properties of undefined'')
   \<and> executeCommand createTestSpec (testState ''idle'' [''count'' \<mapsto> Num 0])
       \<lparr>cmd_event = ''INVALID_EVENT'', cmd_data = None\<rparr> 7 =
     Failure (TransitionNotAllowedError ''idle'' ''INVALID_EVENT''
       [''START'', ''START_WITH_GUARD'', ''START_WITH_ACTION''])"
  by (simp add: executeCommand_def createTestSpec_def testState_def readState_def
      selectTransition_def lookupOn_def availableEvents_def getProp_def idle_def
      objectPrototypeNames_def evaluateGuard_def applyAction_def mergeContext_def
      undefinedRead_def falsyTransition_def)







lemma passesGuardSteps_exit:
  fixes spec :: "'v ActorSpec"
  shows "(passesGuardSteps spec s command \<longrightarrow>
           (\<forall>a b. executeCommand spec s command now \<noteq> Failure (InvalidStateError a b)) \<and>
           (\<forall>a b c. executeCommand spec s command now
                      \<noteq> Failure (TransitionNotAllowedError a b c)) \<and>
           (\<forall>g. executeCommand spec s command now \<noteq> Failure (GuardNotFoundError g)) \<and>
           (\<forall>g r. executeCommand spec s command now \<noteq> Failure (GuardFailedError g r)))
       \<and> (\<not> passesGuardSteps spec s command \<longrightarrow>
           (\<exists>a b. executeCommand spec s command now = Failure (InvalidStateError a b)) \<or>
           (\<exists>a b c. executeCommand spec s command now
                      = Failure (TransitionNotAllowedError a b c)) \<or>
           (\<exists>g. executeCommand spec s command now = Failure (GuardNotFoundError g)) \<or>
           (\<exists>g r. executeCommand spec s command now = Failure (GuardFailedError g r)) \<or>
           (\<exists>d. executeCommand spec s command now = Die d))"
proof (cases "readState spec (state s)")
  case None
  then show ?thesis
    by (simp add: passesGuardSteps_def executeCommand_def)
next
  case st: (Some stateDef)
  show ?thesis
  proof (cases "selectTransition stateDef (cmd_event command)")
    case None
    with st show ?thesis
      by (simp add: passesGuardSteps_def executeCommand_def)
  next
    case sl: (Some sel)
    let ?m = "mergeContext (ctx s) (cmd_data command)"
    have p: "passesGuardSteps spec s command \<longleftrightarrow>
               evaluateGuard spec (selectedGuard sel) ?m = Success ()"
      using st sl by (simp add: passesGuardSteps_def)
    have fails: "\<exists>n. e = ActionNotFoundError n"
      if "applyAction spec a c = Failure e" for a c e
      using that
      by (auto simp: applyAction_def split: option.splits if_splits Prop.splits Called.splits)
    show ?thesis
    proof (cases "evaluateGuard spec (selectedGuard sel) ?m")
      case (Failure e)
      then have "(\<exists>g. e = GuardNotFoundError g) \<or> (\<exists>g r. e = GuardFailedError g r)"
        by (auto simp: evaluateGuard_def
            split: option.splits if_splits Prop.splits Called.splits)
      with Failure st sl p show ?thesis
        by (auto simp: executeCommand_def)
    next
      case (Die d)
      with st sl p show ?thesis
        by (simp add: executeCommand_def)
    next
      case (OutOfModel w)
      then show ?thesis
        by (auto simp: evaluateGuard_def
            split: option.splits if_splits Prop.splits Called.splits)
    next
      case gd: (Success u)
      then have pass: "passesGuardSteps spec s command"
        using p by simp
      have "executeCommand spec s command now \<noteq> Failure (InvalidStateError a vs)"
        and "executeCommand spec s command now \<noteq> Failure (TransitionNotAllowedError f e av)"
        and "executeCommand spec s command now \<noteq> Failure (GuardNotFoundError g)"
        and "executeCommand spec s command now \<noteq> Failure (GuardFailedError g r)"
        for a vs f e av g r
        using st sl gd
        by (auto simp: executeCommand_def
            split: Exit.splits option.splits sum.splits Selected.splits dest!: fails)
      with pass show ?thesis by blast
    qed
  qed
qed

lemma checkTransition_never_fails:
  "checkTransition spec s ev \<noteq> Failure e"
  by (auto simp: checkTransition_def Let_def
      split: option.splits Selected.splits if_splits Prop.splits Called.splits)

lemma checkTransition_never_out:
  "checkTransition spec s ev \<noteq> OutOfModel w"
  by (auto simp: checkTransition_def Let_def
      split: option.splits Selected.splits if_splits Prop.splits Called.splits)


lemma checkTransition_agrees:
  fixes spec :: "'v ActorSpec"
  assumes "checkTransition spec s ev = Success c"
    and "\<forall>stateDef t g.
           readState spec (state s) = Some stateDef \<and>
           selectTransition stateDef ev = Some (Declared t) \<and>
           guard t = Some g \<and> g \<noteq> [] \<longrightarrow> getProp (guards spec) g \<noteq> Absent"
  shows "allowed c \<longleftrightarrow> passesGuardSteps spec s \<lparr>cmd_event = ev, cmd_data = None\<rparr>"
proof (cases "readState spec (state s)")
  case None
  with assms(1) show ?thesis
    by (auto simp: checkTransition_def passesGuardSteps_def Let_def)
next
  case st: (Some stateDef)
  show ?thesis
  proof (cases "selectTransition stateDef ev")
    case None
    with st assms(1) show ?thesis
      by (auto simp: checkTransition_def passesGuardSteps_def Let_def)
  next
    case sl: (Some sel)
    show ?thesis
    proof (cases sel)
      case (Member name)
      with st sl assms(1) show ?thesis
        by (auto simp: checkTransition_def passesGuardSteps_def evaluateGuard_def Let_def)
    next
      case (Declared t)
      show ?thesis
      proof (cases "guard t")
        case None
        with st sl Declared assms(1) show ?thesis
          by (auto simp: checkTransition_def passesGuardSteps_def evaluateGuard_def Let_def)
      next
        case (Some g)
        show ?thesis
        proof (cases "g = []")
          case True
          with st sl Declared Some assms(1) show ?thesis
            by (auto simp: checkTransition_def passesGuardSteps_def evaluateGuard_def Let_def)
        next
          case False
          with assms(2) st sl Declared Some have res: "getProp (guards spec) g \<noteq> Absent"
            by blast
          with st sl Declared Some False assms(1) show ?thesis
            by (auto simp: checkTransition_def passesGuardSteps_def evaluateGuard_def
                mergeContext_def Let_def split: Prop.splits Called.splits if_splits)
        qed
      qed
    qed
  qed
qed

lemma checkTransition_dangling:
  assumes "readState spec (state s) = Some stateDef"
    and "selectTransition stateDef ev = Some (Declared t)"
    and "guard t = Some g" and "g \<noteq> []" and "getProp (guards spec) g = Absent"
  shows "checkTransition spec s ev =
           Success \<lparr>allowed = True, reason = None, check_target = Some (target t)\<rparr>"
  using assms by (simp add: checkTransition_def Let_def)

lemma executeCommand_dangling_guard:
  assumes "readState spec (state s) = Some stateDef"
    and "selectTransition stateDef (cmd_event command) = Some (Declared t)"
    and "guard t = Some g" and "g \<noteq> []" and "getProp (guards spec) g = Absent"
  shows "executeCommand spec s command now = Failure (GuardNotFoundError g)"
  using assms by (simp add: executeCommand_def evaluateGuard_def)

lemma checkTransition_target:
  assumes "checkTransition spec s ev = Success c" and "allowed c"
  shows "\<exists>stateDef transition.
           readState spec (state s) = Some stateDef \<and>
           selectTransition stateDef ev = Some transition \<and>
           reason c = None \<and>
           check_target c =
             (case transition of Declared t \<Rightarrow> Some (target t) | Member name \<Rightarrow> None)"
proof (cases "readState spec (state s)")
  case None
  with assms show ?thesis
    by (auto simp: checkTransition_def Let_def)
next
  case st: (Some stateDef)
  show ?thesis
  proof (cases "selectTransition stateDef ev")
    case None
    with st assms show ?thesis
      by (auto simp: checkTransition_def Let_def)
  next
    case sl: (Some sel)
    have "reason c = None \<and>
          check_target c = (case sel of Declared t \<Rightarrow> Some (target t) | Member name \<Rightarrow> None)"
      using st sl assms
      by (cases sel)
         (auto simp: checkTransition_def Let_def
            split: option.splits if_splits Prop.splits Called.splits)
    with st sl show ?thesis by blast
  qed
qed

text \<open>
  C3 (dry run), as amended.  \<^verbatim>\<open>canTransition\<close> never changes the storage.  An
  unregistered type and a failed load are reported as they are; for a registered type and
  a stored entity the answer is the check of the loaded state.  The check never fails
  with a tagged error, so never with \<^verbatim>\<open>GuardNotFoundError\<close>.  When every guard name the
  selected transition declares resolves in the guard table (or it declares none) and the
  check returns, \<open>allowed\<close> holds exactly when \<^verbatim>\<open>executeCommand\<close> on the same state with no
  command data passes the state lookup, the transition lookup and the guard.  When the
  guard name does not resolve, the check is \<open>allowed\<close> with the target, while
  \<^verbatim>\<open>executeCommand\<close> fails with \<^verbatim>\<open>GuardNotFoundError\<close>.  An allowed check carries no reason
  and the target of the declared transition (none for an inherited member).  Passing
  these steps means that \<^verbatim>\<open>executeCommand\<close> gives none of the four errors of steps 1 to
  5; not passing them means that it gives one of them or ends in a defect.
\<close>

theorem canTransition_dry_run:
  fixes storage :: "('s, 'v) StorageProviderApi" and specs :: "(string \<times> 'v ActorSpec) list"
  shows "snd (canTransition specs storage st aType aId ev) = st
       \<and> (\<forall>e. registryGet specs aType = Inl e \<longrightarrow>
             fst (canTransition specs storage st aType aId ev) = Failure e)
       \<and> (\<forall>spec e. registryGet specs aType = Inr spec \<and>
                    load storage st aType aId = Inl e \<longrightarrow>
             fst (canTransition specs storage st aType aId ev) = Failure e)
       \<and> (\<forall>spec s. registryGet specs aType = Inr spec \<and> load storage st aType aId = Inr s \<longrightarrow>
             fst (canTransition specs storage st aType aId ev) = checkTransition spec s ev)
       \<and> (\<forall>(spec :: 'v ActorSpec) s e. checkTransition spec s ev \<noteq> Failure e)
       \<and> (\<forall>(spec :: 'v ActorSpec) s c.
             checkTransition spec s ev = Success c \<and>
             (\<forall>stateDef t g.
                readState spec (state s) = Some stateDef \<and>
                selectTransition stateDef ev = Some (Declared t) \<and>
                guard t = Some g \<and> g \<noteq> [] \<longrightarrow> getProp (guards spec) g \<noteq> Absent) \<longrightarrow>
             (allowed c \<longleftrightarrow>
              passesGuardSteps spec s \<lparr>cmd_event = ev, cmd_data = None\<rparr>))
       \<and> (\<forall>(spec :: 'v ActorSpec) s now stateDef t g.
             readState spec (state s) = Some stateDef \<and>
             selectTransition stateDef ev = Some (Declared t) \<and>
             guard t = Some g \<and> g \<noteq> [] \<and> getProp (guards spec) g = Absent \<longrightarrow>
             checkTransition spec s ev =
               Success \<lparr>allowed = True, reason = None, check_target = Some (target t)\<rparr> \<and>
             executeCommand spec s \<lparr>cmd_event = ev, cmd_data = None\<rparr> now =
               Failure (GuardNotFoundError g))
       \<and> (\<forall>(spec :: 'v ActorSpec) s c.
             checkTransition spec s ev = Success c \<and> allowed c \<longrightarrow>
             (\<exists>stateDef transition.
                readState spec (state s) = Some stateDef \<and>
                selectTransition stateDef ev = Some transition \<and>
                reason c = None \<and>
                check_target c =
                  (case transition of
                     Declared t \<Rightarrow> Some (target t) | Member name \<Rightarrow> None)))
       \<and> (\<forall>(spec :: 'v ActorSpec) s now.
             passesGuardSteps spec s \<lparr>cmd_event = ev, cmd_data = None\<rparr> \<longrightarrow>
             (\<forall>a b. executeCommand spec s \<lparr>cmd_event = ev, cmd_data = None\<rparr> now
                      \<noteq> Failure (InvalidStateError a b)) \<and>
             (\<forall>a b c. executeCommand spec s \<lparr>cmd_event = ev, cmd_data = None\<rparr> now
                      \<noteq> Failure (TransitionNotAllowedError a b c)) \<and>
             (\<forall>g. executeCommand spec s \<lparr>cmd_event = ev, cmd_data = None\<rparr> now
                      \<noteq> Failure (GuardNotFoundError g)) \<and>
             (\<forall>g r. executeCommand spec s \<lparr>cmd_event = ev, cmd_data = None\<rparr> now
                      \<noteq> Failure (GuardFailedError g r)))
       \<and> (\<forall>(spec :: 'v ActorSpec) s now.
             \<not> passesGuardSteps spec s \<lparr>cmd_event = ev, cmd_data = None\<rparr> \<longrightarrow>
             (\<exists>a b. executeCommand spec s \<lparr>cmd_event = ev, cmd_data = None\<rparr> now
                      = Failure (InvalidStateError a b)) \<or>
             (\<exists>a b c. executeCommand spec s \<lparr>cmd_event = ev, cmd_data = None\<rparr> now
                      = Failure (TransitionNotAllowedError a b c)) \<or>
             (\<exists>g. executeCommand spec s \<lparr>cmd_event = ev, cmd_data = None\<rparr> now
                      = Failure (GuardNotFoundError g)) \<or>
             (\<exists>g r. executeCommand spec s \<lparr>cmd_event = ev, cmd_data = None\<rparr> now
                      = Failure (GuardFailedError g r)) \<or>
             (\<exists>d. executeCommand spec s \<lparr>cmd_event = ev, cmd_data = None\<rparr> now = Die d))"
proof -
  have c1: "snd (canTransition specs storage st aType aId ev) = st"
    by (simp add: canTransition_def split: sum.splits)
  have c2: "\<forall>e. registryGet specs aType = Inl e \<longrightarrow>
             fst (canTransition specs storage st aType aId ev) = Failure e"
    by (simp add: canTransition_def)
  have c3: "\<forall>spec e. registryGet specs aType = Inr spec \<and>
                    load storage st aType aId = Inl e \<longrightarrow>
             fst (canTransition specs storage st aType aId ev) = Failure e"
    by (simp add: canTransition_def)
  have c4: "\<forall>spec s. registryGet specs aType = Inr spec \<and> load storage st aType aId = Inr s \<longrightarrow>
             fst (canTransition specs storage st aType aId ev) = checkTransition spec s ev"
    by (simp add: canTransition_def)
  have c5: "\<forall>(spec :: 'v ActorSpec) s e. checkTransition spec s ev \<noteq> Failure e"
    by (simp add: checkTransition_never_fails)
  have c6: "\<forall>(spec :: 'v ActorSpec) s c.
             checkTransition spec s ev = Success c \<and>
             (\<forall>stateDef t g.
                readState spec (state s) = Some stateDef \<and>
                selectTransition stateDef ev = Some (Declared t) \<and>
                guard t = Some g \<and> g \<noteq> [] \<longrightarrow> getProp (guards spec) g \<noteq> Absent) \<longrightarrow>
             (allowed c \<longleftrightarrow>
              passesGuardSteps spec s \<lparr>cmd_event = ev, cmd_data = None\<rparr>)"
    by (intro allI impI, elim conjE) (rule checkTransition_agrees)
  have c7: "\<forall>(spec :: 'v ActorSpec) s now stateDef t g.
             readState spec (state s) = Some stateDef \<and>
             selectTransition stateDef ev = Some (Declared t) \<and>
             guard t = Some g \<and> g \<noteq> [] \<and> getProp (guards spec) g = Absent \<longrightarrow>
             checkTransition spec s ev =
               Success \<lparr>allowed = True, reason = None, check_target = Some (target t)\<rparr> \<and>
             executeCommand spec s \<lparr>cmd_event = ev, cmd_data = None\<rparr> now =
               Failure (GuardNotFoundError g)"
    by (intro allI impI conjI; elim conjE)
       (erule (4) checkTransition_dangling,
        rule executeCommand_dangling_guard, simp_all)
  have c8: "\<forall>(spec :: 'v ActorSpec) s c.
             checkTransition spec s ev = Success c \<and> allowed c \<longrightarrow>
             (\<exists>stateDef transition.
                readState spec (state s) = Some stateDef \<and>
                selectTransition stateDef ev = Some transition \<and>
                reason c = None \<and>
                check_target c =
                  (case transition of
                     Declared t \<Rightarrow> Some (target t) | Member name \<Rightarrow> None))"
    by (intro allI impI, elim conjE) (rule checkTransition_target)
  have c9: "\<forall>(spec :: 'v ActorSpec) s now.
             passesGuardSteps spec s \<lparr>cmd_event = ev, cmd_data = None\<rparr> \<longrightarrow>
             (\<forall>a b. executeCommand spec s \<lparr>cmd_event = ev, cmd_data = None\<rparr> now
                      \<noteq> Failure (InvalidStateError a b)) \<and>
             (\<forall>a b c. executeCommand spec s \<lparr>cmd_event = ev, cmd_data = None\<rparr> now
                      \<noteq> Failure (TransitionNotAllowedError a b c)) \<and>
             (\<forall>g. executeCommand spec s \<lparr>cmd_event = ev, cmd_data = None\<rparr> now
                      \<noteq> Failure (GuardNotFoundError g)) \<and>
             (\<forall>g r. executeCommand spec s \<lparr>cmd_event = ev, cmd_data = None\<rparr> now
                      \<noteq> Failure (GuardFailedError g r))"
    by (intro allI) (rule passesGuardSteps_exit [THEN conjunct1])
  have c10: "\<forall>(spec :: 'v ActorSpec) s now.
             \<not> passesGuardSteps spec s \<lparr>cmd_event = ev, cmd_data = None\<rparr> \<longrightarrow>
             (\<exists>a b. executeCommand spec s \<lparr>cmd_event = ev, cmd_data = None\<rparr> now
                      = Failure (InvalidStateError a b)) \<or>
             (\<exists>a b c. executeCommand spec s \<lparr>cmd_event = ev, cmd_data = None\<rparr> now
                      = Failure (TransitionNotAllowedError a b c)) \<or>
             (\<exists>g. executeCommand spec s \<lparr>cmd_event = ev, cmd_data = None\<rparr> now
                      = Failure (GuardNotFoundError g)) \<or>
             (\<exists>g r. executeCommand spec s \<lparr>cmd_event = ev, cmd_data = None\<rparr> now
                      = Failure (GuardFailedError g r)) \<or>
             (\<exists>d. executeCommand spec s \<lparr>cmd_event = ev, cmd_data = None\<rparr> now = Die d)"
    by (intro allI) (rule passesGuardSteps_exit [THEN conjunct2])
  show ?thesis
    by (rule conjI [OF c1 conjI [OF c2 conjI [OF c3 conjI [OF c4 conjI [OF c5
          conjI [OF c6 conjI [OF c7 conjI [OF c8 conjI [OF c9 c10]]]]]]]]])
qed

theorem canTransition_dry_run_witness:
  "canTransition [(''test-spec'', createTestSpec)] createMockStorage
       \<lparr>actors = [''test-spec:test-1'' \<mapsto> testState ''idle'' [''count'' \<mapsto> Num 5]],
        audits = Map.empty\<rparr> ''test-spec'' ''test-1'' ''START_WITH_GUARD'' =
     (Success \<lparr>allowed = True, reason = None, check_target = Some ''active''\<rparr>,
      \<lparr>actors = [''test-spec:test-1'' \<mapsto> testState ''idle'' [''count'' \<mapsto> Num 5]],
       audits = Map.empty\<rparr>)
   \<and> passesGuardSteps createTestSpec (testState ''idle'' [''count'' \<mapsto> Num 5])
        \<lparr>cmd_event = ''START_WITH_GUARD'', cmd_data = None\<rparr>
   \<and> executeCommand createTestSpec (testState ''idle'' [''count'' \<mapsto> Num 5])
        \<lparr>cmd_event = ''START_WITH_GUARD'', cmd_data = None\<rparr> 7 \<noteq>
       Failure (GuardFailedError ''canStart'' (guardFailedReason ''canStart''))
   \<and> checkTransition createTestSpec (testState ''idle'' [''count'' \<mapsto> Num 0])
        ''START_WITH_GUARD'' =
       Success \<lparr>allowed = False, reason = Some (guardFailsReason ''canStart''),
                check_target = None\<rparr>
   \<and> \<not> passesGuardSteps createTestSpec (testState ''idle'' [''count'' \<mapsto> Num 0])
        \<lparr>cmd_event = ''START_WITH_GUARD'', cmd_data = None\<rparr>
   \<and> checkTransition missingGuardSpec (testState ''idle'' [''count'' \<mapsto> Num 0]) ''START'' =
       Success \<lparr>allowed = True, reason = None, check_target = Some ''active''\<rparr>
   \<and> fst (canTransition [] createMockStorage (emptyStore :: Value MockStore)
            ''test-spec'' ''test-1'' ''START'') =
       Failure (SpecNotFoundError ''test-spec'' [])
   \<and> fst (canTransition [(''test-spec'', createTestSpec)] createMockStorage
            (emptyStore :: Value MockStore) ''test-spec'' ''test-1'' ''START'') =
       Failure (StorageError ''mock'' ''load'' (Some ''Actor not found: test-spec:test-1''))
   \<and> checkTransition createTestSpec (testState ''idle'' [''count'' \<mapsto> Num 5])
        ''START_WITH_GUARD'' \<noteq> Failure (GuardNotFoundError ''canStart'')"
proof -
  let ?s5 = "testState ''idle'' [''count'' \<mapsto> Num 5]"
  let ?s0 = "testState ''idle'' [''count'' \<mapsto> Num 0]"
  let ?specs = "[(''test-spec'', createTestSpec)]"
  let ?st = "\<lparr>actors = [''test-spec:test-1'' \<mapsto> ?s5],
              audits = Map.empty :: string \<rightharpoonup> Value AuditEntry list\<rparr>"
  let ?ev = "''START_WITH_GUARD''"
  let ?c = "\<lparr>cmd_event = ?ev, cmd_data = None :: Value Context option\<rparr>"
  let ?pass = "\<lparr>allowed = True, reason = None, check_target = Some ''active''\<rparr>"
  let ?no = "\<lparr>allowed = False, reason = Some (guardFailsReason ''canStart''),
              check_target = None\<rparr>"
  let ?md = "\<lparr>target = ''active'', guard = Some ''nonExistentGuard'',
              action = None, static_data = None :: Value Context option\<rparr>"
  let ?msd = "\<lparr>on = Some [(''START'', TransitionDef ?md)], entry = None, exit = None\<rparr>"
  note dry = canTransition_dry_run [of ?specs createMockStorage ?st
         "''test-spec''" "''test-1''" ?ev]
  note defs = checkTransition_def createTestSpec_def testState_def readState_def
    selectTransition_def lookupOn_def getProp_def idle_def falsyTransition_def canStart_def
    objectPrototypeNames_def Let_def
  have k5: "checkTransition createTestSpec ?s5 ?ev = Success ?pass"
    by (simp add: defs)
  have k0: "checkTransition createTestSpec ?s0 ?ev = Success ?no"
    by (simp add: defs)
  have declared: "\<forall>stateDef t g.
         readState createTestSpec (state s) = Some stateDef \<and>
         selectTransition stateDef ?ev = Some (Declared t) \<and>
         guard t = Some g \<and> g \<noteq> [] \<longrightarrow> getProp (guards createTestSpec) g \<noteq> Absent"
    if "state s = ''idle''" for s :: "Value ActorState"
    using that
    by (auto simp: createTestSpec_def readState_def selectTransition_def lookupOn_def
        getProp_def idle_def falsyTransition_def objectPrototypeNames_def)
  note agree = dry [THEN conjunct2, THEN conjunct2, THEN conjunct2, THEN conjunct2,
      THEN conjunct2, THEN conjunct1, THEN spec, THEN spec, THEN spec, THEN mp]
  have a5: "allowed ?pass \<longleftrightarrow> passesGuardSteps createTestSpec ?s5 ?c"
    by (rule agree) (rule conjI [OF k5 declared], simp add: testState_def)
  have a0: "allowed ?no \<longleftrightarrow> passesGuardSteps createTestSpec ?s0 ?c"
    by (rule agree) (rule conjI [OF k0 declared], simp add: testState_def)
  from a5 have p5: "passesGuardSteps createTestSpec ?s5 ?c" by simp
  from a0 have p0: "\<not> passesGuardSteps createTestSpec ?s0 ?c" by simp
  have found: "registryGet ?specs ''test-spec'' = Inr createTestSpec \<and>
               load createMockStorage ?st ''test-spec'' ''test-1'' = Inr ?s5"
    by (simp add: registryGet_def createMockStorage_def mockLoad_def getKey_def)
  have kept: "snd (canTransition ?specs createMockStorage ?st ''test-spec'' ''test-1'' ?ev) = ?st"
    by (rule dry [THEN conjunct1])
  have answer: "fst (canTransition ?specs createMockStorage ?st ''test-spec'' ''test-1'' ?ev) =
                  checkTransition createTestSpec ?s5 ?ev"
    by (rule dry [THEN conjunct2, THEN conjunct2, THEN conjunct2, THEN conjunct1,
          rule_format, OF found])
  have c: "canTransition ?specs createMockStorage ?st ''test-spec'' ''test-1'' ?ev =
             (Success ?pass, ?st)"
    using kept answer k5 by (simp add: prod_eq_iff)
  have nf: "executeCommand createTestSpec ?s5 ?c 7 \<noteq>
              Failure (GuardFailedError ''canStart'' (guardFailedReason ''canStart''))"
    using dry [THEN conjunct2, THEN conjunct2, THEN conjunct2, THEN conjunct2,
        THEN conjunct2, THEN conjunct2, THEN conjunct2, THEN conjunct2, THEN conjunct1,
        rule_format, OF p5]
    by blast
  have noGuard:
    "readState missingGuardSpec (state ?s0) = Some ?msd \<and>
     selectTransition ?msd ''START'' = Some (Declared ?md) \<and>
     guard ?md = Some ''nonExistentGuard'' \<and> ''nonExistentGuard'' \<noteq> [] \<and>
     getProp (guards missingGuardSpec) ''nonExistentGuard'' = Absent"
    by (simp add: missingGuardSpec_def createTestSpec_def testState_def readState_def
        selectTransition_def lookupOn_def getProp_def objectPrototypeNames_def
        falsyTransition_def)
  note other = canTransition_dry_run [where 's = "Value MockStore",
         of "[]" createMockStorage emptyStore "''test-spec''" "''test-1''" "''START''"]
  have d: "checkTransition missingGuardSpec ?s0 ''START'' = Success ?pass"
    using other [THEN conjunct2, THEN conjunct2, THEN conjunct2, THEN conjunct2,
        THEN conjunct2, THEN conjunct2, THEN conjunct1, rule_format, OF noGuard, of 7]
    by simp
  have unknown: "registryGet ([] :: (string \<times> Value ActorSpec) list) ''test-spec'' =
                   Inl (SpecNotFoundError ''test-spec'' [])"
    by (simp add: registryGet_def)
  have e: "fst (canTransition [] createMockStorage (emptyStore :: Value MockStore)
                  ''test-spec'' ''test-1'' ''START'') =
             Failure (SpecNotFoundError ''test-spec'' [])"
    by (rule other [THEN conjunct2, THEN conjunct1, rule_format, OF unknown])
  have unsaved: "registryGet ?specs ''test-spec'' = Inr createTestSpec \<and>
       load createMockStorage (emptyStore :: Value MockStore) ''test-spec'' ''test-1'' =
         Inl (StorageError ''mock'' ''load'' (Some ''Actor not found: test-spec:test-1''))"
    by (simp add: registryGet_def createMockStorage_def mockLoad_def emptyStore_def getKey_def)
  have f: "fst (canTransition ?specs createMockStorage (emptyStore :: Value MockStore)
                  ''test-spec'' ''test-1'' ''START'') =
             Failure (StorageError ''mock'' ''load'' (Some ''Actor not found: test-spec:test-1''))"
    by (rule canTransition_dry_run [where 's = "Value MockStore",
          of ?specs createMockStorage emptyStore "''test-spec''" "''test-1''" "''START''",
          THEN conjunct2, THEN conjunct2, THEN conjunct1, rule_format, OF unsaved])
  have g: "checkTransition createTestSpec ?s5 ?ev \<noteq> Failure (GuardNotFoundError ''canStart'')"
    by (rule dry [THEN conjunct2, THEN conjunct2, THEN conjunct2, THEN conjunct2,
          THEN conjunct1, rule_format])
  from c p5 nf k0 p0 d e f g show ?thesis
    by (intro conjI)
qed

text \<open>
  The claim as stated has \<^verbatim>\<open>canTransition\<close> fail with \<^verbatim>\<open>GuardNotFoundError\<close> and agree with
  \<^verbatim>\<open>executeCommand\<close>.  With a guard name that does not resolve it answers \<open>allowed\<close>.
\<close>

theorem canTransition_guard_not_found_counterexample:
  "checkTransition missingGuardSpec (testState ''idle'' [''count'' \<mapsto> Num 0]) ''START'' =
     Success \<lparr>allowed = True, reason = None, check_target = Some ''active''\<rparr>
   \<and> executeCommand missingGuardSpec (testState ''idle'' [''count'' \<mapsto> Num 0])
       \<lparr>cmd_event = ''START'', cmd_data = None\<rparr> 7 =
     Failure (GuardNotFoundError ''nonExistentGuard'')
   \<and> canTransition [(''test-spec'', missingGuardSpec)] createMockStorage
       \<lparr>actors = [''test-spec:test-1'' \<mapsto> testState ''idle'' [''count'' \<mapsto> Num 0]],
        audits = Map.empty\<rparr> ''test-spec'' ''test-1'' ''START'' =
     (Success \<lparr>allowed = True, reason = None, check_target = Some ''active''\<rparr>,
      \<lparr>actors = [''test-spec:test-1'' \<mapsto> testState ''idle'' [''count'' \<mapsto> Num 0]],
       audits = Map.empty\<rparr>)"
  by (simp add: checkTransition_def executeCommand_def canTransition_def registryGet_def
      createMockStorage_def mockLoad_def getKey_def missingGuardSpec_def createTestSpec_def
      testState_def readState_def selectTransition_def lookupOn_def getProp_def
      objectPrototypeNames_def falsyTransition_def evaluateGuard_def mergeContext_def Let_def)

text \<open>What a successful call has saved.\<close>

lemma execute_Success_save:
  fixes storage :: "('s, 'v) StorageProviderApi"
  assumes "execute amb specs storage st command = (Success result, st')"
  shows "\<exists>spec. registryGet specs (actorType command) = Inr spec \<and>
           executeCommand spec (loadOrInitial amb storage st spec command)
             \<lparr>cmd_event = event command, cmd_data = data command\<rparr> (commandTime amb)
             = Success result \<and>
           save storage st (actorType command) (actorId command)
             (newStateOf amb (loadOrInitial amb storage st spec command) result)
             (auditEntryOf amb command (loadOrInitial amb storage st spec command) result)
             = Inr st'"
  using assms
  by (auto simp: execute_def Let_def split: sum.splits Exit.splits)

lemma addOne_exact: "- (2 ^ 53) \<le> v \<Longrightarrow> v < 2 ^ 53 \<Longrightarrow> addOne v = v + 1"
  by (simp add: addOne_def)

lemma addOne_mono: "v \<le> addOne v"
  by (simp add: addOne_def)

text \<open>
  C6 (version counter), as amended.  A successful \<^verbatim>\<open>execute\<close> saves a state whose version
  is \<^verbatim>\<open>version + 1\<close> of the state it ran on, which is the loaded one or, when the load
  failed, the synthesized one at version 0 in the initial state; the sum is never below
  the version it started from and is exactly one more while that version is below
  \<open>2 ^ 53\<close> in magnitude.  When the registry or the executor fails, or the executor ends
  in a defect, \<^verbatim>\<open>execute\<close> returns that outcome and saves nothing.  On the in-memory storage, whose load fails only for an entity never saved, the
  stored version after a successful call is \<^verbatim>\<open>version + 1\<close> of the stored version before,
  so never below it, and 1 for a new entity.
\<close>

theorem version_increment:
  fixes storage :: "('s, 'v) StorageProviderApi" and specs :: "(string \<times> 'v ActorSpec) list"
  shows "(\<forall>result st'.
            execute amb specs storage st command = (Success result, st') \<longrightarrow>
            (\<exists>spec currentState.
               registryGet specs (actorType command) = Inr spec \<and>
               currentState = loadOrInitial amb storage st spec command \<and>
               (case load storage st (actorType command) (actorId command) of
                  Inr loaded \<Rightarrow> currentState = loaded
                | Inl e \<Rightarrow> version currentState = 0 \<and> state currentState = initial spec \<and>
                           ctx currentState = Map.empty) \<and>
               save storage st (actorType command) (actorId command)
                 (newStateOf amb currentState result)
                 (auditEntryOf amb command currentState result) = Inr st' \<and>
               version (newStateOf amb currentState result) = addOne (version currentState) \<and>
               version currentState \<le> version (newStateOf amb currentState result) \<and>
               (- (2 ^ 53) \<le> version currentState \<and> version currentState < 2 ^ 53 \<longrightarrow>
                  version (newStateOf amb currentState result) = version currentState + 1)))
       \<and> (\<forall>e. registryGet specs (actorType command) = Inl e \<longrightarrow>
              execute amb specs storage st command = (Failure e, st))
       \<and> (\<forall>spec e.
              registryGet specs (actorType command) = Inr spec \<and>
              executeCommand spec (loadOrInitial amb storage st spec command)
                \<lparr>cmd_event = event command, cmd_data = data command\<rparr> (commandTime amb)
                = Failure e \<longrightarrow>
              execute amb specs storage st command = (Failure e, st))
       \<and> (\<forall>spec d.
              registryGet specs (actorType command) = Inr spec \<and>
              executeCommand spec (loadOrInitial amb storage st spec command)
                \<lparr>cmd_event = event command, cmd_data = data command\<rparr> (commandTime amb)
                = Die d \<longrightarrow>
              execute amb specs storage st command = (Die d, st))
       \<and> (\<forall>(m :: 'v MockStore) result m'.
            execute amb specs createMockStorage m command = (Success result, m') \<longrightarrow>
            (\<exists>saved. mockLoad m' (actorType command) (actorId command) = Inr saved \<and>
               version saved =
                 (case mockLoad m (actorType command) (actorId command) of
                    Inr loaded \<Rightarrow> addOne (version loaded)
                  | Inl e \<Rightarrow> 1) \<and>
               (case mockLoad m (actorType command) (actorId command) of
                    Inr loaded \<Rightarrow>
                      version loaded \<le> version saved \<and>
                      (- (2 ^ 53) \<le> version loaded \<and> version loaded < 2 ^ 53 \<longrightarrow>
                         version saved = version loaded + 1)
                  | Inl e \<Rightarrow> True)))"
proof -
  have a: "\<forall>result st'.
            execute amb specs storage st command = (Success result, st') \<longrightarrow>
            (\<exists>spec currentState.
               registryGet specs (actorType command) = Inr spec \<and>
               currentState = loadOrInitial amb storage st spec command \<and>
               (case load storage st (actorType command) (actorId command) of
                  Inr loaded \<Rightarrow> currentState = loaded
                | Inl e \<Rightarrow> version currentState = 0 \<and> state currentState = initial spec \<and>
                           ctx currentState = Map.empty) \<and>
               save storage st (actorType command) (actorId command)
                 (newStateOf amb currentState result)
                 (auditEntryOf amb command currentState result) = Inr st' \<and>
               version (newStateOf amb currentState result) = addOne (version currentState) \<and>
               version currentState \<le> version (newStateOf amb currentState result) \<and>
               (- (2 ^ 53) \<le> version currentState \<and> version currentState < 2 ^ 53 \<longrightarrow>
                  version (newStateOf amb currentState result) = version currentState + 1))"
  proof (intro allI impI)
    fix result st'
    assume ok: "execute amb specs storage st command = (Success result, st')"
    from execute_Success_save [OF ok] obtain spec
      where sp: "registryGet specs (actorType command) = Inr spec"
        and sv: "save storage st (actorType command) (actorId command)
               (newStateOf amb (loadOrInitial amb storage st spec command) result)
               (auditEntryOf amb command (loadOrInitial amb storage st spec command) result)
               = Inr st'"
      by blast
    let ?cur = "loadOrInitial amb storage st spec command"
    have ld: "(case load storage st (actorType command) (actorId command) of
                    Inr loaded \<Rightarrow> ?cur = loaded
                  | Inl e \<Rightarrow> version ?cur = 0 \<and> state ?cur = initial spec \<and>
                             ctx ?cur = Map.empty)"
      by (simp add: loadOrInitial_def initialState_def split: sum.splits)
    have v: "version (newStateOf amb ?cur result) = addOne (version ?cur)"
      by (simp add: newStateOf_def)
    have mono: "version ?cur \<le> version (newStateOf amb ?cur result)"
      by (simp add: v addOne_mono)
    have exact: "- (2 ^ 53) \<le> version ?cur \<and> version ?cur < 2 ^ 53 \<longrightarrow>
                   version (newStateOf amb ?cur result) = version ?cur + 1"
      by (simp add: v addOne_exact)
    from sp ld sv v mono exact
    show "\<exists>spec currentState.
               registryGet specs (actorType command) = Inr spec \<and>
               currentState = loadOrInitial amb storage st spec command \<and>
               (case load storage st (actorType command) (actorId command) of
                  Inr loaded \<Rightarrow> currentState = loaded
                | Inl e \<Rightarrow> version currentState = 0 \<and> state currentState = initial spec \<and>
                           ctx currentState = Map.empty) \<and>
               save storage st (actorType command) (actorId command)
                 (newStateOf amb currentState result)
                 (auditEntryOf amb command currentState result) = Inr st' \<and>
               version (newStateOf amb currentState result) = addOne (version currentState) \<and>
               version currentState \<le> version (newStateOf amb currentState result) \<and>
               (- (2 ^ 53) \<le> version currentState \<and> version currentState < 2 ^ 53 \<longrightarrow>
                  version (newStateOf amb currentState result) = version currentState + 1)"
      by blast
  qed
  have b0: "\<forall>e. registryGet specs (actorType command) = Inl e \<longrightarrow>
              execute amb specs storage st command = (Failure e, st)"
    by (simp add: execute_def)
  have b: "\<forall>spec e.
              registryGet specs (actorType command) = Inr spec \<and>
              executeCommand spec (loadOrInitial amb storage st spec command)
                \<lparr>cmd_event = event command, cmd_data = data command\<rparr> (commandTime amb)
                = Failure e \<longrightarrow>
              execute amb specs storage st command = (Failure e, st)"
    by (simp add: execute_def Let_def)
  have c: "\<forall>spec d.
              registryGet specs (actorType command) = Inr spec \<and>
              executeCommand spec (loadOrInitial amb storage st spec command)
                \<lparr>cmd_event = event command, cmd_data = data command\<rparr> (commandTime amb)
                = Die d \<longrightarrow>
              execute amb specs storage st command = (Die d, st)"
    by (simp add: execute_def Let_def)
  have d: "\<forall>(m :: 'v MockStore) result m'.
            execute amb specs createMockStorage m command = (Success result, m') \<longrightarrow>
            (\<exists>saved. mockLoad m' (actorType command) (actorId command) = Inr saved \<and>
               version saved =
                 (case mockLoad m (actorType command) (actorId command) of
                    Inr loaded \<Rightarrow> addOne (version loaded)
                  | Inl e \<Rightarrow> 1) \<and>
               (case mockLoad m (actorType command) (actorId command) of
                    Inr loaded \<Rightarrow>
                      version loaded \<le> version saved \<and>
                      (- (2 ^ 53) \<le> version loaded \<and> version loaded < 2 ^ 53 \<longrightarrow>
                         version saved = version loaded + 1)
                  | Inl e \<Rightarrow> True))"
  proof (intro allI impI)
    fix m :: "'v MockStore" and result m'
    assume ok: "execute amb specs createMockStorage m command = (Success result, m')"
    from execute_Success_save [OF ok] obtain spec
      where sv: "save createMockStorage m (actorType command) (actorId command)
               (newStateOf amb (loadOrInitial amb createMockStorage m spec command) result)
               (auditEntryOf amb command (loadOrInitial amb createMockStorage m spec command)
                  result)
               = Inr m'"
      by blast
    let ?new = "newStateOf amb (loadOrInitial amb createMockStorage m spec command) result"
    have l: "mockLoad m' (actorType command) (actorId command) = Inr ?new"
      using sv by (auto simp: createMockStorage_def mockSave_def mockLoad_def Let_def)
    have v: "version ?new =
                   (case mockLoad m (actorType command) (actorId command) of
                      Inr loaded \<Rightarrow> addOne (version loaded)
                    | Inl e \<Rightarrow> 1)"
      by (simp add: newStateOf_def loadOrInitial_def initialState_def createMockStorage_def
          addOne_def split: sum.splits)
    have w: "(case mockLoad m (actorType command) (actorId command) of
                    Inr loaded \<Rightarrow>
                      version loaded \<le> version ?new \<and>
                      (- (2 ^ 53) \<le> version loaded \<and> version loaded < 2 ^ 53 \<longrightarrow>
                         version ?new = version loaded + 1)
                  | Inl e \<Rightarrow> True)"
      by (simp add: v addOne_mono addOne_exact split: sum.splits)
    from l v w
    show "\<exists>saved. mockLoad m' (actorType command) (actorId command) = Inr saved \<and>
               version saved =
                 (case mockLoad m (actorType command) (actorId command) of
                    Inr loaded \<Rightarrow> addOne (version loaded)
                  | Inl e \<Rightarrow> 1) \<and>
               (case mockLoad m (actorType command) (actorId command) of
                    Inr loaded \<Rightarrow>
                      version loaded \<le> version saved \<and>
                      (- (2 ^ 53) \<le> version loaded \<and> version loaded < 2 ^ 53 \<longrightarrow>
                         version saved = version loaded + 1)
                  | Inl e \<Rightarrow> True)"
      by blast
  qed
  show ?thesis
    by (rule conjI [OF a conjI [OF b0 conjI [OF b conjI [OF c d]]]])
qed

theorem version_increment_witness:
  "fst (execute testAmbient [(''test-spec'', createTestSpec)] createMockStorage emptyStore
          (testCommand ''START'' (Some [''count'' \<mapsto> Num 0]))) =
     Success \<lparr>from_state = ''idle'', to_state = ''active'', result_event = ''START'',
              oldContext = Map.empty, newContext = [''count'' \<mapsto> Num 0],
              timestamp = 1001\<rparr>
   \<and> (\<exists>saved.
         mockLoad (snd (execute testAmbient [(''test-spec'', createTestSpec)] createMockStorage
                          emptyStore (testCommand ''START'' (Some [''count'' \<mapsto> Num 0]))))
           ''test-spec'' ''test-1'' = Inr saved
         \<and> version saved = 1)
   \<and> (\<exists>spec currentState.
         registryGet [(''test-spec'', createTestSpec)] ''test-spec'' = Inr spec
         \<and> currentState = loadOrInitial testAmbient createMockStorage emptyStore spec
               (testCommand ''START'' (Some [''count'' \<mapsto> Num 0]))
         \<and> version currentState = 0 \<and> state currentState = initial spec
         \<and> version (newStateOf testAmbient currentState
               \<lparr>from_state = ''idle'', to_state = ''active'', result_event = ''START'',
                oldContext = Map.empty, newContext = [''count'' \<mapsto> Num 0],
                timestamp = 1001\<rparr>) = 1)
   \<and> (\<exists>saved.
         mockLoad (snd (execute testAmbient [(''test-spec'', createTestSpec)] createMockStorage
                          version5Store (testCommand ''COMPLETE'' None)))
           ''test-spec'' ''test-1'' = Inr saved
         \<and> version saved = 6)
   \<and> execute testAmbient [(''test-spec'', createTestSpec)] createMockStorage version5Store
        (testCommand ''START'' None) =
       (Failure (TransitionNotAllowedError ''active'' ''START'' [''COMPLETE'']), version5Store)
   \<and> execute testAmbient [(''test-spec'', danglingSpec)] createMockStorage emptyStore
        (testCommand ''GO'' (Some [''count'' \<mapsto> Num 0])) =
       (Die (TypeError ''Cannot read properties of undefined''), emptyStore)
   \<and> execute testAmbient [] createMockStorage version5Store (testCommand ''START'' None) =
       (Failure (SpecNotFoundError ''test-spec'' []), version5Store)"
proof -
  let ?x = "testCommand ''START'' (Some [''count'' \<mapsto> Num 0])"
  let ?specs = "[(''test-spec'', createTestSpec)]"
  let ?run = "execute testAmbient ?specs createMockStorage (emptyStore :: Value MockStore) ?x"
  let ?r = "\<lparr>from_state = ''idle'', to_state = ''active'', result_event = ''START'',
            oldContext = Map.empty, newContext = [''count'' \<mapsto> Num 0], timestamp = 1001\<rparr>"
  note run_defs = createMockStorage_def execute_def registryGet_def testCommand_def
    loadOrInitial_def mockLoad_def initialState_def testAmbient_def executeCommand_def
    createTestSpec_def readState_def selectTransition_def getProp_def lookupOn_def idle_def
    active_def done_state_def falsyTransition_def evaluateGuard_def applyAction_def
    mergeContext_def TestSchema_def mockSave_def getKey_def objectPrototypeNames_def Let_def
  have f: "fst ?run = Success ?r"
    by (simp add: run_defs emptyStore_def)
  then have run: "?run = (Success ?r, snd ?run)"
    by (simp add: prod_eq_iff)
  have absent: "mockLoad (emptyStore :: Value MockStore) (actorType ?x) (actorId ?x) =
                  Inl (StorageError ''mock'' ''load'' (Some ''Actor not found: test-spec:test-1''))"
    by (simp add: mockLoad_def emptyStore_def getKey_def testCommand_def)
  note v = version_increment [where 's = "Value MockStore", of testAmbient ?specs
      createMockStorage emptyStore ?x]
  from v [THEN conjunct2, THEN conjunct2, THEN conjunct2, THEN conjunct2, rule_format, OF run]
  obtain saved where s1: "mockLoad (snd ?run) (actorType ?x) (actorId ?x) = Inr saved"
    and s2: "version saved =
               (case mockLoad (emptyStore :: Value MockStore) (actorType ?x) (actorId ?x) of
                  Inr loaded \<Rightarrow> addOne (version loaded) | Inl e \<Rightarrow> 1)"
    by blast
  from s1 have s1': "mockLoad (snd ?run) ''test-spec'' ''test-1'' = Inr saved"
    by (simp add: testCommand_def)
  from s2 have s2': "version saved = 1"
    by (simp add: absent)
  from s1' s2'
  have a: "\<exists>saved. mockLoad (snd ?run) ''test-spec'' ''test-1'' = Inr saved \<and> version saved = 1"
    by blast
  from v [THEN conjunct1, rule_format, OF run]
  obtain spec currentState
    where b1: "registryGet ?specs (actorType ?x) = Inr spec"
      and b2: "currentState = loadOrInitial testAmbient createMockStorage emptyStore spec ?x"
      and b3: "(case load createMockStorage (emptyStore :: Value MockStore)
                       (actorType ?x) (actorId ?x) of
                  Inr loaded \<Rightarrow> currentState = loaded
                | Inl e \<Rightarrow> version currentState = 0 \<and> state currentState = initial spec \<and>
                           ctx currentState = Map.empty)"
      and b4: "- (2 ^ 53) \<le> version currentState \<and> version currentState < 2 ^ 53 \<longrightarrow>
                 version (newStateOf testAmbient currentState ?r) = version currentState + 1"
    by blast
  from b3 have b3': "version currentState = 0 \<and> state currentState = initial spec"
    by (simp add: createMockStorage_def absent)
  from b4 b3' have b4': "version (newStateOf testAmbient currentState ?r) = 1"
    by simp
  from b1 have b1': "registryGet ?specs ''test-spec'' = Inr spec"
    by (simp add: testCommand_def)
  from b1' b2 b3' b4'
  have b: "\<exists>spec currentState.
         registryGet ?specs ''test-spec'' = Inr spec
         \<and> currentState = loadOrInitial testAmbient createMockStorage emptyStore spec ?x
         \<and> version currentState = 0 \<and> state currentState = initial spec
         \<and> version (newStateOf testAmbient currentState ?r) = 1"
    by blast
  let ?z = "testCommand ''COMPLETE'' (None :: Value Context option)"
  let ?next = "execute testAmbient ?specs createMockStorage version5Store ?z"
  let ?q = "\<lparr>from_state = ''active'', to_state = ''done'', result_event = ''COMPLETE'',
            oldContext = [''count'' \<mapsto> Num 3],
            newContext = [''count'' \<mapsto> Num 4, ''message'' \<mapsto> Str ''entered''],
            timestamp = 1001\<rparr>"
  have g: "fst ?next = Success ?q"
    by (simp add: run_defs version5Store_def testState_def increment_def onExit_def
        onEntry_def fun_upd_twist)
  then have next_run: "?next = (Success ?q, snd ?next)"
    by (simp add: prod_eq_iff)
  have stored: "mockLoad version5Store (actorType ?z) (actorId ?z) =
                  Inr ((testState ''active'' [''count'' \<mapsto> Num 3])\<lparr>version := 5\<rparr>)"
    by (simp add: mockLoad_def version5Store_def getKey_def testCommand_def)
  from version_increment [where 's = "Value MockStore", of testAmbient ?specs
      createMockStorage version5Store ?z, THEN conjunct2, THEN conjunct2, THEN conjunct2,
      THEN conjunct2, rule_format, OF next_run]
  obtain saved' where t1: "mockLoad (snd ?next) (actorType ?z) (actorId ?z) = Inr saved'"
    and t2: "(case mockLoad version5Store (actorType ?z) (actorId ?z) of
                    Inr loaded \<Rightarrow>
                      version loaded \<le> version saved' \<and>
                      (- (2 ^ 53) \<le> version loaded \<and> version loaded < 2 ^ 53 \<longrightarrow>
                         version saved' = version loaded + 1)
                  | Inl e \<Rightarrow> True)"
    by blast
  from t1 have t1': "mockLoad (snd ?next) ''test-spec'' ''test-1'' = Inr saved'"
    by (simp add: testCommand_def)
  from t2 have t2': "version saved' = 6"
    by (simp add: stored)
  from t1' t2'
  have c: "\<exists>saved. mockLoad (snd ?next) ''test-spec'' ''test-1'' = Inr saved \<and>
             version saved = 6"
    by blast
  let ?y = "testCommand ''START'' (None :: Value Context option)"
  have refused:
    "registryGet ?specs (actorType ?y) = Inr createTestSpec \<and>
     executeCommand createTestSpec
       (loadOrInitial testAmbient createMockStorage version5Store createTestSpec ?y)
       \<lparr>cmd_event = event ?y, cmd_data = data ?y\<rparr> (commandTime testAmbient) =
     Failure (TransitionNotAllowedError ''active'' ''START'' [''COMPLETE''])"
    by (simp add: run_defs version5Store_def testState_def availableEvents_def)
  have d: "execute testAmbient ?specs createMockStorage version5Store ?y =
             (Failure (TransitionNotAllowedError ''active'' ''START'' [''COMPLETE'']),
              version5Store)"
    by (rule version_increment [where 's = "Value MockStore", of testAmbient ?specs
          createMockStorage version5Store ?y, THEN conjunct2, THEN conjunct2, THEN conjunct1,
          rule_format, OF refused])
  let ?w = "testCommand ''GO'' (Some [''count'' \<mapsto> Num 0])"
  let ?dspecs = "[(''test-spec'', danglingSpec)]"
  have crashed:
    "registryGet ?dspecs (actorType ?w) = Inr danglingSpec \<and>
     executeCommand danglingSpec
       (loadOrInitial testAmbient createMockStorage (emptyStore :: Value MockStore)
          danglingSpec ?w)
       \<lparr>cmd_event = event ?w, cmd_data = data ?w\<rparr> (commandTime testAmbient) =
     Die (TypeError ''Cannot read properties of undefined'')"
    by (simp add: run_defs danglingSpec_def emptyStore_def undefinedRead_def)
  have e: "execute testAmbient ?dspecs createMockStorage (emptyStore :: Value MockStore) ?w =
             (Die (TypeError ''Cannot read properties of undefined''), emptyStore)"
    by (rule version_increment [where 's = "Value MockStore", of testAmbient ?dspecs
          createMockStorage emptyStore ?w, THEN conjunct2, THEN conjunct2, THEN conjunct2,
          THEN conjunct1, rule_format, OF crashed])
  have unknown: "registryGet ([] :: (string \<times> Value ActorSpec) list) (actorType ?y) =
                   Inl (SpecNotFoundError ''test-spec'' [])"
    by (simp add: registryGet_def testCommand_def)
  have g0: "execute testAmbient [] createMockStorage version5Store ?y =
             (Failure (SpecNotFoundError ''test-spec'' []), version5Store)"
    by (rule version_increment [where 's = "Value MockStore", of testAmbient "[]"
          createMockStorage version5Store ?y, THEN conjunct2, THEN conjunct1,
          rule_format, OF unknown])
  from f a b c d e g0 show ?thesis by (intro conjI)
qed

text \<open>
  Two runs in which the stored version does not go up by one: a load that fails for a
  stored entity restarts the counter, and at \<open>2 ^ 53\<close> the sum is rounded back.
\<close>

theorem version_counter_counterexample:
  "map_option version (actors version5Store ''test-spec:test-1'') = Some 5
   \<and> fst (execute testAmbient [(''test-spec'', createTestSpec)] unreadableStorage
            version5Store (testCommand ''START'' (Some [''count'' \<mapsto> Num 0]))) =
       Success \<lparr>from_state = ''idle'', to_state = ''active'', result_event = ''START'',
                oldContext = Map.empty, newContext = [''count'' \<mapsto> Num 0],
                timestamp = 1001\<rparr>
   \<and> map_option version
         (actors (snd (execute testAmbient [(''test-spec'', createTestSpec)] unreadableStorage
            version5Store (testCommand ''START'' (Some [''count'' \<mapsto> Num 0]))))
            ''test-spec:test-1'') = Some 1
   \<and> map_option version (actors largeVersionStore ''test-spec:test-1'') = Some (2 ^ 53)
   \<and> fst (execute testAmbient [(''test-spec'', createTestSpec)] createMockStorage
            largeVersionStore (testCommand ''START'' None)) =
       Success \<lparr>from_state = ''idle'', to_state = ''active'', result_event = ''START'',
                oldContext = [''count'' \<mapsto> Num 0], newContext = [''count'' \<mapsto> Num 0],
                timestamp = 1001\<rparr>
   \<and> map_option version
         (actors (snd (execute testAmbient [(''test-spec'', createTestSpec)] createMockStorage
            largeVersionStore (testCommand ''START'' None)))
            ''test-spec:test-1'') = Some (2 ^ 53)"
  by (simp add: unreadableStorage_def createMockStorage_def execute_def registryGet_def
      testCommand_def loadOrInitial_def initialState_def testAmbient_def executeCommand_def
      createTestSpec_def lookupOn_def idle_def active_def falsyTransition_def evaluateGuard_def
      applyAction_def mergeContext_def TestSchema_def newStateOf_def auditEntryOf_def
      mockSave_def mockLoad_def getKey_def version5Store_def largeVersionStore_def
      testState_def readState_def selectTransition_def getProp_def addOne_def
      objectPrototypeNames_def Let_def)

end
